theory Spec2Isabelle
  imports Main
begin

section \<open>Data model of the round controller (App component)\<close>

text \<open>
  The round controller is the React component \<open>App\<close>.  Its state lives in
  \<open>useState\<close> cells and \<open>useRef\<close> cells.  A callback created by
  \<open>useCallback\<close> reads the \<open>useState\<close> values of the render that created it
  (its closure) but reads and writes refs, and calls state setters, on the live
  component.  Every handler below therefore takes two states: \<open>env\<close>, the render
  whose values the callback closed over, and \<open>st\<close>, the live component, and returns
  the live component after the call.  A callback of the current render is
  \<open>h st st\<close>.

  Strings are JavaScript strings restricted to code units below 256, one
  \<open>char\<close> per code unit.
\<close>

datatype GameStatus = IDLE | LOADING | PLAYING | WON | LOST

text \<open>The object returned by \<open>getNewGameData\<close>: concept, explanation, imageUrl.\<close>

datatype gameData = GameData (concept: string) (gd_explanation: string) (gd_imageUrl: string)

text \<open>
  How a promise settles.  A rejection carries \<open>Some m\<close> when the reason is an
  \<open>Error\<close> with message \<open>m\<close>, and \<open>None\<close> for any other reason.
\<close>

datatype outcome = Fulfilled gameData | Rejected "string option"

text \<open>
  \<open>promiseToAwait\<close> of \<open>startNewGame\<close>: either \<open>Promise.resolve(data)\<close> or
  a promise returned by \<open>getNewGameData\<close>, named by its handle.
\<close>

datatype awaited = Resolved gameData | Handle nat

text \<open>The texts handed to \<open>handleGameEvent\<close>, by call site, with their parameters.\<close>

datatype userMsg = NextRound | StartingLevel1 | Correct | LevelUp nat | TimeRanOut

datatype aiMsg =
    Thinking
  | ImageCreated string string
  | GuessedCorrectly string string "nat option"
  | AiTimeRanOut string string

text \<open>Calls made to the external collaborators, in the order they are made.\<close>

datatype effect =
    SendGameEvent "userMsg option" "aiMsg option"
  | GetNewGameData nat "string list" string
  | ChatReset

record state =
  gameStatus :: GameStatus
  imageUrl :: string
  imageStyle :: string
  answer :: string
  explanation :: string
  guessValue :: string
  isWrongGuess :: bool
  timeLeft :: int
  error :: "string option"
  loadingMessage :: string
  score :: nat
  level :: nat
  pastConcepts :: "string list"
  prefetchedGameData :: "gameData option"
  nextGamePromiseRef :: "nat option"
  roundIdRef :: nat
  timerRef :: "nat option"
  isMounted :: bool
  chatPanelRef :: bool
  intervals :: "nat list"
  intervalCount :: nat
  timeouts :: "nat list"
  suspended :: "(nat \<times> awaited) list"
  promiseCount :: nat
  trace :: "effect list"

text \<open>
  The last six fields are the runtime around the component: \<open>intervals\<close> are the
  ids of the live \<open>setInterval\<close> timers, \<open>intervalCount\<close> the id that the next
  \<open>setInterval\<close> returns (ids are positive), \<open>timeouts\<close> the delays (ms) of the
  pending \<open>setTimeout\<close> callbacks of \<open>handleIncorrectGuess\<close>, \<open>suspended\<close> the
  activations of \<open>startNewGame\<close> waiting at \<open>await promiseToAwait\<close> with their
  captured \<open>roundId\<close>, \<open>promiseCount\<close> the handle of the next promise that
  \<open>getNewGameData\<close> returns, and \<open>trace\<close> the calls made so far.
  \<open>chatPanelRef\<close> says whether \<open>chatPanelRef.current\<close> is attached.
\<close>

definition ROUND_TIME :: int where
  "ROUND_TIME = 30"

text \<open>The component as first rendered and mounted.\<close>

definition initial :: state where
  "initial = \<lparr> gameStatus = IDLE, imageUrl = [], imageStyle = ''pixel art'', answer = [],
     explanation = [], guessValue = [], isWrongGuess = False, timeLeft = ROUND_TIME,
     error = None, loadingMessage = [], score = 0, level = 1, pastConcepts = [],
     prefetchedGameData = None, nextGamePromiseRef = None, roundIdRef = 0,
     timerRef = None, isMounted = True, chatPanelRef = True, intervals = [],
     intervalCount = 1, timeouts = [], suspended = [], promiseCount = 0, trace = [] \<rparr>"

section \<open>String helpers of the guess logic\<close>

text \<open>\<open>/\s/\<close> on code units below 256: TAB, LF, VT, FF, CR, space and NBSP.\<close>

definition isWhiteSpace :: "char \<Rightarrow> bool" where
  "isWhiteSpace c = ((of_char c :: nat) \<in> set [9, 10, 11, 12, 13, 32, 160])"

text \<open>The complement of \<open>/[^a-zA-Z0-9]/\<close>.\<close>

definition isAlnum :: "char \<Rightarrow> bool" where
  "isAlnum c = (let n = (of_char c :: nat) in
     (97 \<le> n \<and> n \<le> 122) \<or> (65 \<le> n \<and> n \<le> 90) \<or> (48 \<le> n \<and> n \<le> 57))"

text \<open>\<open>answer.replace(/\s/g, '')\<close>\<close>

definition answerSanitized :: "string \<Rightarrow> string" where
  "answerSanitized a = filter (\<lambda>c. \<not> isWhiteSpace c) a"

text \<open>
  \<open>String.prototype.toLowerCase\<close> on code units below 256: A-Z and the
  upper-case letters U+00C0 to U+00DE (U+00D7 is the multiplication sign) move up
  by 32, every other code unit stays.
\<close>

definition lowerChar :: "char \<Rightarrow> char" where
  "lowerChar c = (let n = (of_char c :: nat) in
     if (65 \<le> n \<and> n \<le> 90) \<or> (192 \<le> n \<and> n \<le> 222 \<and> n \<noteq> 215)
     then char_of (n + 32) else c)"

definition toLowerCase :: "string \<Rightarrow> string" where
  "toLowerCase s = map lowerChar s"

section \<open>Handlers of the App component\<close>

text \<open>
  \<open>cleanupTimer\<close>: clears the interval held in \<open>timerRef\<close>, if any, and
  empties the ref.
\<close>

definition cleanupTimer :: "state \<Rightarrow> state" where
  "cleanupTimer st =
     (case timerRef st of
        None \<Rightarrow> st
      | Some i \<Rightarrow> st\<lparr>timerRef := None, intervals := removeAll i (intervals st)\<rparr>)"

text \<open>
  \<open>handleGameEvent\<close>: forwards the event to the chat panel when the ref is
  attached.  An \<open>await\<close> on an event that has only a \<open>forUser\<close> part resumes in
  a microtask, before any click, timer or network completion, so a handler runs
  through such an \<open>await\<close> without another handler in between.
\<close>

definition handleGameEvent :: "userMsg option \<Rightarrow> aiMsg option \<Rightarrow> state \<Rightarrow> state" where
  "handleGameEvent forUser forAI st =
     (if chatPanelRef st then st\<lparr>trace := trace st @ [SendGameEvent forUser forAI]\<rparr> else st)"

definition handleCorrectGuess :: "state \<Rightarrow> state \<Rightarrow> state" where
  "handleCorrectGuess env st =
     (if gameStatus env \<noteq> PLAYING then st
      else
        let st1 = cleanupTimer (st\<lparr>gameStatus := WON\<rparr>);
            newScore = score env + 1;
            st2 = st1\<lparr>score := newScore\<rparr>;
            oldLevel = level env;
            newLevel = newScore div 5 + 1;
            st3 = handleGameEvent (Some Correct) None st2;
            st4 = (if newLevel > oldLevel
                   then handleGameEvent (Some (LevelUp newLevel)) None (st3\<lparr>level := newLevel\<rparr>)
                   else st3);
            aiCongratulation = (if newLevel > oldLevel then Some newLevel else None)
        in handleGameEvent None
             (Some (GuessedCorrectly (answer env) (explanation env) aiCongratulation)) st4)"

text \<open>
  \<open>handleIncorrectGuess\<close> sets the flag and schedules a callback after 1000 ms;
  \<open>wrongGuessTimeout\<close> is that callback.
\<close>

definition handleIncorrectGuess :: "state \<Rightarrow> state" where
  "handleIncorrectGuess st = st\<lparr>isWrongGuess := True, timeouts := timeouts st @ [1000]\<rparr>"

definition wrongGuessTimeout :: "state \<Rightarrow> state" where
  "wrongGuessTimeout st =
     (if \<not> isMounted st then st else st\<lparr>guessValue := [], isWrongGuess := False\<rparr>)"

text \<open>The oldest pending timeout fires: it leaves the queue and its callback runs.\<close>

definition fireTimeout :: "state \<Rightarrow> state" where
  "fireTimeout st =
     (case timeouts st of
        [] \<Rightarrow> st
      | d # ds \<Rightarrow> wrongGuessTimeout (st\<lparr>timeouts := ds\<rparr>))"

definition handleTimeUp :: "state \<Rightarrow> state \<Rightarrow> state" where
  "handleTimeUp env st =
     handleGameEvent (Some TimeRanOut) (Some (AiTimeRanOut (answer env) (explanation env)))
       (cleanupTimer (st\<lparr>gameStatus := LOST\<rparr>))"

text \<open>
  The timer effect (dependencies: status, \<open>timeLeft\<close>, \<open>handleTimeUp\<close>), the
  cleanup it returns, and the callback of its interval.
\<close>

definition timerEffect :: "state \<Rightarrow> state \<Rightarrow> state" where
  "timerEffect env st =
     (if gameStatus env = PLAYING \<and> timeLeft env > 0
      then st\<lparr>timerRef := Some (intervalCount st),
              intervals := intervals st @ [intervalCount st],
              intervalCount := intervalCount st + 1\<rparr>
      else if timeLeft env \<le> 0 \<and> gameStatus env = PLAYING then handleTimeUp env st
      else st)"

definition timerEffect_cleanup :: "state \<Rightarrow> state" where
  "timerEffect_cleanup st =
     (case timerRef st of
        None \<Rightarrow> st
      | Some i \<Rightarrow> st\<lparr>intervals := removeAll i (intervals st)\<rparr>)"

definition tick :: "state \<Rightarrow> state" where
  "tick st = st\<lparr>timeLeft := timeLeft st - 1\<rparr>"

text \<open>The cleanup of the mount effect, run when the component is removed.\<close>

definition unmount :: "state \<Rightarrow> state" where
  "unmount st = cleanupTimer (st\<lparr>isMounted := False\<rparr>)"

text \<open>The effect that evaluates the guess (dependencies: guess, answer, status, flag).\<close>

definition guessEffect :: "state \<Rightarrow> state \<Rightarrow> state" where
  "guessEffect env st =
     (if gameStatus env \<noteq> PLAYING \<or> answer env = [] \<or> isWrongGuess env then st
      else if length (guessValue env) = length (answerSanitized (answer env))
      then (if toLowerCase (guessValue env) = toLowerCase (answerSanitized (answer env))
            then handleCorrectGuess env st
            else handleIncorrectGuess st)
      else st)"

definition prefetchNextRound :: "state \<Rightarrow> state \<Rightarrow> state" where
  "prefetchNextRound env st =
     (if nextGamePromiseRef st \<noteq> None then st
      else
        let conceptsToExclude =
              (if answer env \<noteq> [] then pastConcepts env @ [answer env] else pastConcepts env);
            promise = promiseCount st
        in st\<lparr>promiseCount := promise + 1,
              trace := trace st @ [GetNewGameData promise conceptsToExclude (imageStyle env)],
              nextGamePromiseRef := Some promise\<rparr>)"

text \<open>The \<open>then\<close> and \<open>catch\<close> callbacks that \<open>prefetchNextRound\<close> attaches to its promise.\<close>

definition prefetch_then :: "nat \<Rightarrow> gameData \<Rightarrow> state \<Rightarrow> state" where
  "prefetch_then promise data st =
     (if isMounted st \<and> nextGamePromiseRef st = Some promise
      then st\<lparr>prefetchedGameData := Some data\<rparr> else st)"

definition prefetch_catch :: "nat \<Rightarrow> state \<Rightarrow> state" where
  "prefetch_catch promise st =
     (if isMounted st \<and> nextGamePromiseRef st = Some promise
      then st\<lparr>nextGamePromiseRef := None\<rparr> else st)"

text \<open>The effect that starts the prefetch when a round finishes.\<close>

definition prefetchEffect :: "state \<Rightarrow> state \<Rightarrow> state" where
  "prefetchEffect env st =
     (if gameStatus env = WON \<or> gameStatus env = LOST then prefetchNextRound env st else st)"

text \<open>The style setter, and the effect that runs when \<open>imageStyle\<close> has changed.\<close>

definition setImageStyle :: "string \<Rightarrow> state \<Rightarrow> state" where
  "setImageStyle style st = st\<lparr>imageStyle := style\<rparr>"

definition styleEffect :: "state \<Rightarrow> state \<Rightarrow> state" where
  "styleEffect env st =
     (if prefetchedGameData env \<noteq> None \<or> nextGamePromiseRef st \<noteq> None
      then st\<lparr>prefetchedGameData := None, nextGamePromiseRef := None\<rparr> else st)"

text \<open>
  The content resolution of \<open>startNewGame\<close> (the three branches that choose
  \<open>promiseToAwait\<close>): ready prefetched data of the closure, else the pending
  promise in the ref, else a fresh call of \<open>getNewGameData\<close>.
\<close>

definition resolveContent :: "state \<Rightarrow> state \<Rightarrow> awaited \<times> state" where
  "resolveContent env st =
     (case prefetchedGameData env of
        Some data \<Rightarrow>
          (Resolved data, st\<lparr>prefetchedGameData := None, nextGamePromiseRef := None\<rparr>)
      | None \<Rightarrow>
          (case nextGamePromiseRef st of
             Some promise \<Rightarrow> (Handle promise, st\<lparr>nextGamePromiseRef := None\<rparr>)
           | None \<Rightarrow>
               (Handle (promiseCount st),
                st\<lparr>promiseCount := promiseCount st + 1,
                   trace := trace st @
                     [GetNewGameData (promiseCount st) (pastConcepts env) (imageStyle env)]\<rparr>)))"

text \<open>
  \<open>startNewGame\<close> from \<open>setGameStatus(LOADING)\<close> to the "thinking" event, the
  part between the guard and the \<open>try\<close> block.
\<close>

definition startNewGame_prologue :: "state \<Rightarrow> state \<Rightarrow> state" where
  "startNewGame_prologue env st0 =
     (let wasRoundFinished = (gameStatus env = WON \<or> gameStatus env = LOST);
          isFirstGame = (length (pastConcepts env) = 0);
          st1 = st0\<lparr>gameStatus := LOADING, loadingMessage := ''thinking''\<rparr>;
          st2 = (if wasRoundFinished then handleGameEvent (Some NextRound) None st1 else st1);
          st3 = (cleanupTimer st2)\<lparr>error := None, guessValue := [],
                   isWrongGuess := False, imageUrl := []\<rparr>;
          st4 = (if isFirstGame then handleGameEvent (Some StartingLevel1) None st3 else st3)
      in handleGameEvent None (Some Thinking) st4)"

text \<open>
  \<open>startNewGame\<close> up to \<open>await promiseToAwait\<close>.  The activation that reaches
  the \<open>await\<close> is recorded in \<open>suspended\<close> with its captured \<open>roundId\<close>.
\<close>

definition startNewGame :: "state \<Rightarrow> state \<Rightarrow> state" where
  "startNewGame env st =
     (let roundId = roundIdRef st + 1;
          st0 = st\<lparr>roundIdRef := roundId\<rparr>
      in if gameStatus env = LOADING then st0
         else
           let st5 = startNewGame_prologue env st0;
               (promiseToAwait, st6) = resolveContent env st5
           in if \<not> isMounted st6 \<or> roundIdRef st6 \<noteq> roundId then st6
              else st6\<lparr>loadingMessage := ''generating'',
                       suspended := suspended st6 @ [(roundId, promiseToAwait)]\<rparr>)"

text \<open>\<open>handleGameData\<close>, the inner function of \<open>startNewGame\<close> that commits a round.\<close>

definition handleGameData :: "nat \<Rightarrow> gameData \<Rightarrow> state \<Rightarrow> state" where
  "handleGameData roundId data st =
     (if \<not> isMounted st \<or> roundIdRef st \<noteq> roundId then st
      else
        let st1 = st\<lparr>imageUrl := gd_imageUrl data, answer := concept data,
                     explanation := gd_explanation data, timeLeft := ROUND_TIME,
                     pastConcepts := pastConcepts st @ [concept data]\<rparr>;
            st2 = handleGameEvent None
                    (Some (ImageCreated (concept data) (gd_explanation data))) st1
        in st2\<lparr>gameStatus := PLAYING\<rparr>)"

text \<open>
  The rest of \<open>startNewGame\<close>, run when \<open>promiseToAwait\<close> settles: the code
  after the \<open>await\<close> on fulfilment, the \<open>catch\<close> block on rejection.
\<close>

definition startNewGame_settled :: "nat \<Rightarrow> outcome \<Rightarrow> state \<Rightarrow> state" where
  "startNewGame_settled roundId res st =
     (case res of
        Fulfilled data \<Rightarrow>
          (if \<not> isMounted st \<or> roundIdRef st \<noteq> roundId then st
           else handleGameData roundId data st)
      | Rejected e \<Rightarrow>
          (if \<not> isMounted st \<or> roundIdRef st \<noteq> roundId then st
           else st\<lparr>error := Some (case e of Some m \<Rightarrow> m
                                      | None \<Rightarrow> ''An unknown error occurred.''),
                   gameStatus := IDLE, prefetchedGameData := None,
                   nextGamePromiseRef := None\<rparr>))"

definition handleResetGame :: "state \<Rightarrow> state" where
  "handleResetGame st =
     (let st1 = cleanupTimer (st\<lparr>roundIdRef := roundIdRef st + 1\<rparr>);
          st2 = st1\<lparr>gameStatus := IDLE, imageUrl := [], answer := [], explanation := [],
                    guessValue := [], isWrongGuess := False, timeLeft := ROUND_TIME,
                    error := None, loadingMessage := [], pastConcepts := [],
                    score := 0, level := 1\<rparr>
      in if chatPanelRef st2 then st2\<lparr>trace := trace st2 @ [ChatReset]\<rparr> else st2)"

definition handleGuessChange :: "state \<Rightarrow> string \<Rightarrow> state \<Rightarrow> state" where
  "handleGuessChange env v st = (if isWrongGuess env then st else st\<lparr>guessValue := v\<rparr>)"

section \<open>The guess input (GuessInput component)\<close>

definition isDisabled :: "state \<Rightarrow> bool" where
  "isDisabled env = (gameStatus env = IDLE \<or> gameStatus env = LOADING \<or>
                     gameStatus env = WON \<or> gameStatus env = LOST)"

definition handleInput :: "state \<Rightarrow> string \<Rightarrow> state \<Rightarrow> state" where
  "handleInput env rawValue st =
     (if isDisabled env \<or> isWrongGuess env then st
      else
        let sanitizedValue = filter isAlnum rawValue;
            truncatedValue = take (length (answerSanitized (answer env))) sanitizedValue
        in handleGuessChange env truncatedValue st)"

text \<open>
  One input event on the rendered component.  When the guess has changed the
  component renders again and the guess effect of that render runs; an unchanged
  guess causes no render and no effect.
\<close>

definition submitGuess :: "string \<Rightarrow> state \<Rightarrow> state" where
  "submitGuess rawValue st =
     (let st1 = handleInput st rawValue st
      in if guessValue st1 = guessValue st then st1 else guessEffect st1 st1)"

section \<open>Drivers: settling promises, repeated calls\<close>

text \<open>
  The promise awaited by the suspended activation with captured id \<open>roundId\<close>
  settles and the activation resumes.  \<open>Promise.resolve(data)\<close> can only fulfil
  with \<open>data\<close>; a promise of \<open>getNewGameData\<close> settles as the provider decides.
\<close>

definition resume :: "nat \<Rightarrow> outcome \<Rightarrow> state \<Rightarrow> state" where
  "resume roundId res st =
     (case map_of (suspended st) roundId of
        None \<Rightarrow> st
      | Some promiseToAwait \<Rightarrow>
          startNewGame_settled roundId
            (case promiseToAwait of Resolved data \<Rightarrow> Fulfilled data | Handle p \<Rightarrow> res)
            (st\<lparr>suspended := filter (\<lambda>a. fst a \<noteq> roundId) (suspended st)\<rparr>))"

text \<open>
  \<open>startNewGame\<close> called once for each closure of the list, in order, with no
  promise settling in between.
\<close>

definition startNewGames :: "state list \<Rightarrow> state \<Rightarrow> state" where
  "startNewGames envs st = foldl (\<lambda>s env. startNewGame env s) st envs"

text \<open>A sequence of input events on the rendered component.\<close>

definition submitGuesses :: "string list \<Rightarrow> state \<Rightarrow> state" where
  "submitGuesses raws st = foldl (\<lambda>s raw. submitGuess raw s) st raws"

section \<open>The states the component can reach\<close>

text \<open>
  \<open>getNewGameData\<close> throws unless the concept and the explanation it received
  are non-empty, so the data of a fulfilled promise has both.
\<close>

definition providerData :: "gameData \<Rightarrow> bool" where
  "providerData d = (concept d \<noteq> [] \<and> gd_explanation d \<noteq> [])"

fun providerOutcome :: "outcome \<Rightarrow> bool" where
  "providerOutcome (Fulfilled d) = providerData d"
| "providerOutcome (Rejected e) = True"

text \<open>
  From the mounted component, one step is a handler or an effect of the current
  render (its closure is the state itself), a promise of the provider that
  settles, or a timer that fires.  The steps may come in any order, so every
  order in which the browser runs them on an up-to-date render is among them.
\<close>

inductive reachable :: "state \<Rightarrow> bool" where
  mounted: "reachable initial"
| start_clicked: "reachable st \<Longrightarrow> reachable (startNewGame st st)"
| content_settled: "reachable st \<Longrightarrow> providerOutcome res \<Longrightarrow> reachable (resume rid res st)"
| input: "reachable st \<Longrightarrow> reachable (submitGuess raw st)"
| guess_effect: "reachable st \<Longrightarrow> reachable (guessEffect st st)"
| timeout_fired: "reachable st \<Longrightarrow> reachable (fireTimeout st)"
| timer_effect: "reachable st \<Longrightarrow> reachable (timerEffect st (timerEffect_cleanup st))"
| ticked: "reachable st \<Longrightarrow> intervals st \<noteq> [] \<Longrightarrow> reachable (tick st)"
| prefetch_effect: "reachable st \<Longrightarrow> reachable (prefetchEffect st st)"
| prefetch_fulfilled: "reachable st \<Longrightarrow> providerData d \<Longrightarrow> reachable (prefetch_then p d st)"
| prefetch_rejected: "reachable st \<Longrightarrow> reachable (prefetch_catch p st)"
| style_changed: "reachable st \<Longrightarrow>
     reachable (styleEffect (setImageStyle style st) (setImageStyle style st))"
| reset_clicked: "reachable st \<Longrightarrow> reachable (handleResetGame st)"
| unmounted: "reachable st \<Longrightarrow> reachable (unmount st)"

text \<open>
  What holds in every reachable state: the level formula; a round being played
  has an answer; the guess fits the sanitized answer and is empty while no round
  is shown; prefetched data came from the provider; a suspended activation has
  an id up to the current one, and the current one only while the status is
  \<open>LOADING\<close>.  And the only live interval is the one in \<open>timerRef\<close>.
\<close>

definition roundInv :: "state \<Rightarrow> bool" where
  "roundInv st =
     (level st = score st div 5 + 1 \<and>
      (gameStatus st = PLAYING \<longrightarrow> answer st \<noteq> []) \<and>
      length (guessValue st) \<le> length (answerSanitized (answer st)) \<and>
      (gameStatus st = IDLE \<or> gameStatus st = LOADING \<longrightarrow> guessValue st = []) \<and>
      (\<forall>d. prefetchedGameData st = Some d \<longrightarrow> providerData d) \<and>
      (\<forall>a \<in> set (suspended st). fst a \<le> roundIdRef st) \<and>
      (\<forall>a \<in> set (suspended st). fst a = roundIdRef st \<longrightarrow> gameStatus st = LOADING) \<and>
      (\<forall>a \<in> set (suspended st). \<forall>d. snd a = Resolved d \<longrightarrow> providerData d))"

definition timerInv :: "state \<Rightarrow> bool" where
  "timerInv st = (set (intervals st) \<subseteq> set_option (timerRef st))"

section \<open>Concrete rounds used as examples\<close>

definition inception :: gameData where
  "inception = GameData ''Inception'' ''a spinning top'' ''data:image/jpeg;base64,AAAA''"

definition dieHard :: gameData where
  "dieHard = GameData ''Die Hard'' ''a tower at night'' ''data:image/jpeg;base64,BBBB''"

text \<open>The first click on "Start game": round 1 is loading, its fetch has handle 0.\<close>

definition loadingRound1 :: state where
  "loadingRound1 = startNewGame initial initial"

text \<open>Round 1 is committed with the concept "Inception" and played to a win.\<close>

definition playingRound1 :: state where
  "playingRound1 = resume 1 (Fulfilled inception) loadingRound1"

definition wonRound1 :: state where
  "wonRound1 = submitGuess ''inception'' playingRound1"

text \<open>The prefetch for round 2 starts after the win (handle 1) and fulfils.\<close>

definition prefetchingRound2 :: state where
  "prefetchingRound2 = prefetchEffect wonRound1 wonRound1"

definition prefetchedRound2 :: state where
  "prefetchedRound2 = prefetch_then 1 dieHard prefetchingRound2"

text \<open>
  A wrong full-length guess in round 1, then a reset, then round 3 is started,
  committed with the concept "Die Hard", and three letters are typed, while the
  timeout of round 1 is still pending.
\<close>

definition wrongRound1 :: state where
  "wrongRound1 = submitGuess ''inceptiom'' playingRound1"

definition resetAfterWrong :: state where
  "resetAfterWrong = handleResetGame wrongRound1"

definition loadingRound3 :: state where
  "loadingRound3 = startNewGame resetAfterWrong resetAfterWrong"

definition playingRound3 :: state where
  "playingRound3 = resume 3 (Fulfilled dieHard) loadingRound3"

definition typingRound3 :: state where
  "typingRound3 = submitGuess ''die'' playingRound3"

text \<open>
  Or a wrong full-length guess is made in round 3, while the timeout of round 1
  is still pending.
\<close>

definition wrongRound3 :: state where
  "wrongRound3 = submitGuess ''diehars'' playingRound3"

text \<open>Round 1 being played with four earlier wins on the counter.\<close>

definition playingScore4 :: state where
  "playingScore4 = playingRound1\<lparr>score := 4\<rparr>"

text \<open>The provider calls among a list of effects.\<close>

fun isGetNewGameData :: "effect \<Rightarrow> bool" where
  "isGetNewGameData (GetNewGameData p excluded style) = True"
| "isGetNewGameData (SendGameEvent u a) = False"
| "isGetNewGameData ChatReset = False"

definition providerCalls :: "effect list \<Rightarrow> effect list" where
  "providerCalls es = filter isGetNewGameData es"

section \<open>What the helpers leave unchanged\<close>

lemma handleGameEvent_frame [simp]:
  "gameStatus (handleGameEvent u a st) = gameStatus st"
  "imageUrl (handleGameEvent u a st) = imageUrl st"
  "imageStyle (handleGameEvent u a st) = imageStyle st"
  "answer (handleGameEvent u a st) = answer st"
  "explanation (handleGameEvent u a st) = explanation st"
  "guessValue (handleGameEvent u a st) = guessValue st"
  "isWrongGuess (handleGameEvent u a st) = isWrongGuess st"
  "timeLeft (handleGameEvent u a st) = timeLeft st"
  "error (handleGameEvent u a st) = error st"
  "loadingMessage (handleGameEvent u a st) = loadingMessage st"
  "score (handleGameEvent u a st) = score st"
  "level (handleGameEvent u a st) = level st"
  "pastConcepts (handleGameEvent u a st) = pastConcepts st"
  "prefetchedGameData (handleGameEvent u a st) = prefetchedGameData st"
  "nextGamePromiseRef (handleGameEvent u a st) = nextGamePromiseRef st"
  "roundIdRef (handleGameEvent u a st) = roundIdRef st"
  "timerRef (handleGameEvent u a st) = timerRef st"
  "isMounted (handleGameEvent u a st) = isMounted st"
  "chatPanelRef (handleGameEvent u a st) = chatPanelRef st"
  "intervals (handleGameEvent u a st) = intervals st"
  "intervalCount (handleGameEvent u a st) = intervalCount st"
  "timeouts (handleGameEvent u a st) = timeouts st"
  "suspended (handleGameEvent u a st) = suspended st"
  "promiseCount (handleGameEvent u a st) = promiseCount st"
  by (simp_all add: handleGameEvent_def)

lemma trace_handleGameEvent:
  "trace (handleGameEvent u a st)
     = trace st @ (if chatPanelRef st then [SendGameEvent u a] else [])"
  by (simp add: handleGameEvent_def)

lemma cleanupTimer_frame [simp]:
  "gameStatus (cleanupTimer st) = gameStatus st"
  "imageUrl (cleanupTimer st) = imageUrl st"
  "imageStyle (cleanupTimer st) = imageStyle st"
  "answer (cleanupTimer st) = answer st"
  "explanation (cleanupTimer st) = explanation st"
  "guessValue (cleanupTimer st) = guessValue st"
  "isWrongGuess (cleanupTimer st) = isWrongGuess st"
  "timeLeft (cleanupTimer st) = timeLeft st"
  "error (cleanupTimer st) = error st"
  "loadingMessage (cleanupTimer st) = loadingMessage st"
  "score (cleanupTimer st) = score st"
  "level (cleanupTimer st) = level st"
  "pastConcepts (cleanupTimer st) = pastConcepts st"
  "prefetchedGameData (cleanupTimer st) = prefetchedGameData st"
  "nextGamePromiseRef (cleanupTimer st) = nextGamePromiseRef st"
  "roundIdRef (cleanupTimer st) = roundIdRef st"
  "isMounted (cleanupTimer st) = isMounted st"
  "chatPanelRef (cleanupTimer st) = chatPanelRef st"
  "timeouts (cleanupTimer st) = timeouts st"
  "intervalCount (cleanupTimer st) = intervalCount st"
  "suspended (cleanupTimer st) = suspended st"
  "promiseCount (cleanupTimer st) = promiseCount st"
  "trace (cleanupTimer st) = trace st"
  by (simp_all add: cleanupTimer_def split: option.split)

lemma timerRef_cleanupTimer [simp]: "timerRef (cleanupTimer st) = None"
  by (simp add: cleanupTimer_def split: option.split)

lemma intervals_cleanupTimer:
  "set (intervals (cleanupTimer st)) = set (intervals st) - set_option (timerRef st)"
  by (auto simp add: cleanupTimer_def split: option.split)

lemma providerCalls_append [simp]: "providerCalls (xs @ ys) = providerCalls xs @ providerCalls ys"
  by (simp add: providerCalls_def)

lemma providerCalls_simps [simp]: "providerCalls [] = []"
  "providerCalls (SendGameEvent u a # es) = providerCalls es" 
  "providerCalls (GetNewGameData p e s # es) = GetNewGameData p e s # providerCalls es"
  "providerCalls (ChatReset # es) = providerCalls es" 
  by (simp_all add: providerCalls_def)

lemma prologue_frame [simp]:
  "prefetchedGameData (startNewGame_prologue env st) = prefetchedGameData st"
  "nextGamePromiseRef (startNewGame_prologue env st) = nextGamePromiseRef st"
  "roundIdRef (startNewGame_prologue env st) = roundIdRef st"
  "isMounted (startNewGame_prologue env st) = isMounted st"
  "suspended (startNewGame_prologue env st) = suspended st"
  "promiseCount (startNewGame_prologue env st) = promiseCount st"
  "score (startNewGame_prologue env st) = score st"
  "level (startNewGame_prologue env st) = level st"
  "pastConcepts (startNewGame_prologue env st) = pastConcepts st"
  "answer (startNewGame_prologue env st) = answer st"
  "gameStatus (startNewGame_prologue env st) = LOADING"
  "guessValue (startNewGame_prologue env st) = []"
  "isWrongGuess (startNewGame_prologue env st) = False"
  "providerCalls (trace (startNewGame_prologue env st)) = providerCalls (trace st)"
  by (simp_all add: startNewGame_prologue_def Let_def trace_handleGameEvent)

lemma resolveContent_fst:
  "fst (resolveContent env st)
     = (case prefetchedGameData env of
           Some data \<Rightarrow> Resolved data
         | None \<Rightarrow> (case nextGamePromiseRef st of
                      Some p \<Rightarrow> Handle p
                    | None \<Rightarrow> Handle (promiseCount st)))"
  by (simp add: resolveContent_def split: option.split)

lemma resolveContent_frame [simp]:
  "roundIdRef (snd (resolveContent env st)) = roundIdRef st"
  "isMounted (snd (resolveContent env st)) = isMounted st"
  "suspended (snd (resolveContent env st)) = suspended st"
  "score (snd (resolveContent env st)) = score st"
  "level (snd (resolveContent env st)) = level st"
  "pastConcepts (snd (resolveContent env st)) = pastConcepts st"
  "answer (snd (resolveContent env st)) = answer st"
  "gameStatus (snd (resolveContent env st)) = gameStatus st"
  "guessValue (snd (resolveContent env st)) = guessValue st"
  "isWrongGuess (snd (resolveContent env st)) = isWrongGuess st"
  "nextGamePromiseRef (snd (resolveContent env st)) = None"
  by (simp_all add: resolveContent_def split: option.split)

lemma resolveContent_slot:
  "prefetchedGameData (snd (resolveContent env st))
     = (if prefetchedGameData env = None then prefetchedGameData st else None)"
  by (simp add: resolveContent_def split: option.split)

lemma resolveContent_providerCalls:
  "providerCalls (trace (snd (resolveContent env st)))
     = providerCalls (trace st) @
       (if prefetchedGameData env = None \<and> nextGamePromiseRef st = None
        then [GetNewGameData (promiseCount st) (pastConcepts env) (imageStyle env)] else [])"
  by (simp add: resolveContent_def split: option.split)

lemma handleCorrectGuess_frame [simp]:
  "guessValue (handleCorrectGuess env st) = guessValue st"
  "answer (handleCorrectGuess env st) = answer st"
  "isWrongGuess (handleCorrectGuess env st) = isWrongGuess st"
  "isMounted (handleCorrectGuess env st) = isMounted st"
  "timeouts (handleCorrectGuess env st) = timeouts st"
  "roundIdRef (handleCorrectGuess env st) = roundIdRef st"
  "prefetchedGameData (handleCorrectGuess env st) = prefetchedGameData st"
  "suspended (handleCorrectGuess env st) = suspended st"
  "timerRef (handleCorrectGuess env st) = (if gameStatus env = PLAYING then None else timerRef st)"
  by (simp_all add: handleCorrectGuess_def Let_def)

lemma handleIncorrectGuess_frame [simp]:
  "guessValue (handleIncorrectGuess st) = guessValue st"
  "answer (handleIncorrectGuess st) = answer st"
  "gameStatus (handleIncorrectGuess st) = gameStatus st"
  "isWrongGuess (handleIncorrectGuess st) = True"
  "timeouts (handleIncorrectGuess st) = timeouts st @ [1000]"
  by (simp_all add: handleIncorrectGuess_def)

lemma guessEffect_frame [simp]:
  "guessValue (guessEffect env st) = guessValue st"
  "answer (guessEffect env st) = answer st"
  by (simp_all add: guessEffect_def)

section \<open>Round identity\<close>

lemma roundIdRef_startNewGame: "roundIdRef (startNewGame env st) = roundIdRef st + 1"
  by (simp add: startNewGame_def Let_def split_beta)

lemma roundIdRef_startNewGames:
  "roundIdRef (startNewGames envs st) = roundIdRef st + length envs"
  unfolding startNewGames_def
  by (induction envs arbitrary: st) (simp_all add: roundIdRef_startNewGame)

lemma settled_stale: "roundIdRef st \<noteq> rid \<Longrightarrow> startNewGame_settled rid res st = st"
  by (simp add: startNewGame_settled_def split: outcome.split)

lemma settled_unmounted: "\<not> isMounted st \<Longrightarrow> startNewGame_settled rid res st = st"
  by (simp add: startNewGame_settled_def split: outcome.split)

lemma settled_commit:
  "isMounted st \<Longrightarrow>
   startNewGame_settled (roundIdRef st) (Fulfilled d) st =
     (handleGameEvent None (Some (ImageCreated (concept d) (gd_explanation d)))
        (st\<lparr>imageUrl := gd_imageUrl d, answer := concept d,
            explanation := gd_explanation d, timeLeft := ROUND_TIME,
            pastConcepts := pastConcepts st @ [concept d]\<rparr>))\<lparr>gameStatus := PLAYING\<rparr>"
  by (simp add: startNewGame_settled_def handleGameData_def Let_def)

section \<open>Invariants of the reachable states\<close>

lemma inv_initial: "roundInv initial"
  by (simp add: roundInv_def initial_def)

lemma startNewGame_fields:
  "score (startNewGame env st) = score st"
  "level (startNewGame env st) = level st"
  "answer (startNewGame env st) = answer st"
  "gameStatus (startNewGame env st) = (if gameStatus env = LOADING then gameStatus st else LOADING)"
  "guessValue (startNewGame env st) = (if gameStatus env = LOADING then guessValue st else [])"
  by (simp_all add: startNewGame_def Let_def split_beta)

lemma startNewGame_suspended_any:
  "suspended (startNewGame env st)
     = (if gameStatus env = LOADING \<or> \<not> isMounted st then suspended st
        else suspended st @ [(roundIdRef st + 1, fst (resolveContent env (startNewGame_prologue env (st\<lparr>roundIdRef := roundIdRef st + 1\<rparr>))))])"
  by (simp add: startNewGame_def Let_def split_beta)

lemma startNewGame_prefetched:
  "prefetchedGameData (startNewGame env st) = None \<or>
   prefetchedGameData (startNewGame env st) = prefetchedGameData st"
  by (simp add: startNewGame_def Let_def split_beta resolveContent_slot)

lemma startNewGame_awaits:
  "(\<forall>d. prefetchedGameData env = Some d \<longrightarrow> providerData d) \<Longrightarrow>
   fst (resolveContent env st) = Resolved d \<Longrightarrow> providerData d"
  by (simp add: resolveContent_fst split: option.splits)

lemma inv_startNewGame:
  assumes "roundInv st"
  shows "roundInv (startNewGame st st)"
proof (cases "gameStatus st = LOADING")
  case True
  then have "startNewGame st st = st\<lparr>roundIdRef := roundIdRef st + 1\<rparr>"
    by (simp add: startNewGame_def Let_def)
  with assms True show ?thesis
    by (auto simp add: roundInv_def)
next
  case False
  let ?p = "fst (resolveContent st (startNewGame_prologue st (st\<lparr>roundIdRef := roundIdRef st + 1\<rparr>)))"
  have data: "providerData d" if "?p = Resolved d" for d
    using assms that startNewGame_awaits [of st _ d] by (simp add: roundInv_def)
  have susp: "set (suspended (startNewGame st st)) \<subseteq> insert (roundIdRef st + 1, ?p) (set (suspended st))"
    by (auto simp add: startNewGame_suspended_any)
  have pre: "\<forall>d. prefetchedGameData (startNewGame st st) = Some d \<longrightarrow> providerData d"
    using assms startNewGame_prefetched [of st st] by (auto simp add: roundInv_def)
  have old: "\<forall>a \<in> set (suspended st). fst a \<le> roundIdRef st"
    and old_data: "\<forall>a \<in> set (suspended st). \<forall>d. snd a = Resolved d \<longrightarrow> providerData d"
    using assms by (simp_all add: roundInv_def)
  have i6: "\<forall>a \<in> set (suspended (startNewGame st st)). fst a \<le> roundIdRef (startNewGame st st)"
    using susp old by (fastforce simp add: roundIdRef_startNewGame)
  have i8: "\<forall>a \<in> set (suspended (startNewGame st st)). \<forall>d. snd a = Resolved d \<longrightarrow> providerData d"
    using susp old_data data by fastforce
  from assms False pre i6 i8 show ?thesis
    by (simp add: roundInv_def startNewGame_fields)
qed

lemma roundInv_same:
  assumes "roundInv st"
    and "level st' = level st" "score st' = score st" "gameStatus st' = gameStatus st"
    and "answer st' = answer st" "guessValue st' = guessValue st"
    and "prefetchedGameData st' = prefetchedGameData st"
    and "suspended st' = suspended st" "roundIdRef st' = roundIdRef st"
  shows "roundInv st'"
  using assms by (simp add: roundInv_def)

lemma inv_resume:
  assumes inv: "roundInv st" and res: "providerOutcome res"
  shows "roundInv (resume rid res st)"
proof (cases "map_of (suspended st) rid")
  case None
  with inv show ?thesis by (simp add: resume_def)
next
  case (Some a)
  let ?st = "st\<lparr>suspended := filter (\<lambda>a. fst a \<noteq> rid) (suspended st)\<rparr>"
  let ?res = "case a of Resolved data \<Rightarrow> Fulfilled data | Handle p \<Rightarrow> res"
  have eq: "resume rid res st = startNewGame_settled rid ?res ?st"
    using Some by (simp add: resume_def)
  have mem: "(rid, a) \<in> set (suspended st)"
    using Some by (rule map_of_SomeD)
  have res': "providerOutcome ?res"
  proof (cases a)
    case (Resolved d)
    with mem inv have "providerData d" by (fastforce simp add: roundInv_def)
    with Resolved show ?thesis by simp
  next
    case (Handle p)
    with res show ?thesis by simp
  qed
  have inv': "roundInv ?st"
    using inv by (fastforce simp add: roundInv_def)
  show ?thesis
  proof (cases "\<not> isMounted st \<or> roundIdRef st \<noteq> rid")
    case True
    then have "startNewGame_settled rid ?res ?st = ?st"
      by (auto simp add: startNewGame_settled_def split: outcome.split)
    with eq inv' show ?thesis by simp
  next
    case False
    then have cur: "roundIdRef st = rid" and mounted: "isMounted st" by simp_all
    from mem cur inv have loading: "gameStatus st = LOADING"
      by (fastforce simp add: roundInv_def)
    with inv have empty: "guessValue st = []" by (simp add: roundInv_def)
    have gone: "\<forall>a \<in> set (suspended ?st). fst a \<noteq> roundIdRef st"
      using cur by simp
    show ?thesis
    proof (cases ?res)
      case (Fulfilled d)
      with res' have data: "concept d \<noteq> []" by (simp add: providerData_def)
      have "startNewGame_settled rid ?res ?st
          = (handleGameEvent None (Some (ImageCreated (concept d) (gd_explanation d)))
              (?st\<lparr>imageUrl := gd_imageUrl d, answer := concept d,
                  explanation := gd_explanation d, timeLeft := ROUND_TIME,
                  pastConcepts := pastConcepts ?st @ [concept d]\<rparr>))\<lparr>gameStatus := PLAYING\<rparr>"
        using Fulfilled cur mounted settled_commit [of ?st d] by simp
      with eq inv' data empty gone show ?thesis
        by (simp add: roundInv_def)
    next
      case (Rejected e)
      then have "startNewGame_settled rid ?res ?st
          = ?st\<lparr>error := Some (case e of Some m \<Rightarrow> m | None \<Rightarrow> ''An unknown error occurred.''),
                gameStatus := IDLE, prefetchedGameData := None, nextGamePromiseRef := None\<rparr>"
        using cur mounted by (simp add: startNewGame_settled_def)
      with eq inv' empty gone show ?thesis
        by (simp add: roundInv_def)
    qed
  qed
qed


lemma handleCorrectGuess_level_any:
  "gameStatus st = PLAYING \<Longrightarrow>
   level (handleCorrectGuess st st) = max (level st) ((score st + 1) div 5 + 1) \<and>
   score (handleCorrectGuess st st) = score st + 1 \<and>
   gameStatus (handleCorrectGuess st st) = WON"
  by (simp add: handleCorrectGuess_def Let_def max_def)

lemma inv_handleCorrectGuess:
  assumes inv: "roundInv st"
  shows "roundInv (handleCorrectGuess st st)"
proof (cases "gameStatus st = PLAYING")
  case False
  then have "handleCorrectGuess st st = st" by (simp add: handleCorrectGuess_def)
  with inv show ?thesis by simp
next
  case True
  from inv have "level st = score st div 5 + 1" by (simp add: roundInv_def)
  moreover have "score st div 5 \<le> (score st + 1) div 5" by (rule div_le_mono) simp
  ultimately have "max (level st) ((score st + 1) div 5 + 1) = (score st + 1) div 5 + 1"
    by simp
  with inv True handleCorrectGuess_level_any [OF True] show ?thesis
    by (auto simp add: roundInv_def)
qed

lemma inv_handleIncorrectGuess: "roundInv st \<Longrightarrow> roundInv (handleIncorrectGuess st)"
  by (erule roundInv_same) (simp_all add: handleIncorrectGuess_def)

lemma inv_guessEffect: "roundInv st \<Longrightarrow> roundInv (guessEffect st st)"
  by (simp add: guessEffect_def inv_handleCorrectGuess inv_handleIncorrectGuess)

lemma inv_handleInput:
  assumes inv: "roundInv st"
  shows "roundInv (handleInput st raw st)"
proof (cases "gameStatus st = PLAYING \<and> \<not> isWrongGuess st")
  case True
  then have "handleInput st raw st
      = st\<lparr>guessValue := take (length (answerSanitized (answer st))) (filter isAlnum raw)\<rparr>"
    by (simp add: handleInput_def handleGuessChange_def isDisabled_def Let_def)
  with inv True show ?thesis by (simp add: roundInv_def)
next
  case False
  then have "handleInput st raw st = st"
    by (cases "gameStatus st") (auto simp add: handleInput_def isDisabled_def)
  with inv show ?thesis by simp
qed

lemma inv_submitGuess: "roundInv st \<Longrightarrow> roundInv (submitGuess raw st)"
  by (simp add: submitGuess_def Let_def inv_handleInput inv_guessEffect)

lemma inv_fireTimeout: "roundInv st \<Longrightarrow> roundInv (fireTimeout st)"
  by (auto simp add: fireTimeout_def wrongGuessTimeout_def roundInv_def split: list.split)

lemma inv_tick: "roundInv st \<Longrightarrow> roundInv (tick st)"
  by (erule roundInv_same) (simp_all add: tick_def)

lemma inv_handleTimeUp:
  "roundInv st \<Longrightarrow> gameStatus st = PLAYING \<Longrightarrow> roundInv (handleTimeUp st' st)"
  by (auto simp add: handleTimeUp_def roundInv_def)

lemma inv_timerEffect_cleanup: "roundInv st \<Longrightarrow> roundInv (timerEffect_cleanup st)"
  by (erule roundInv_same) (simp_all add: timerEffect_cleanup_def split: option.split)

lemma gameStatus_timerEffect_cleanup [simp]:
  "gameStatus (timerEffect_cleanup st) = gameStatus st"
  by (simp add: timerEffect_cleanup_def split: option.split)

lemma inv_timerEffect:
  assumes "roundInv st" and "gameStatus env = gameStatus st"
  shows "roundInv (timerEffect env st)"
proof (cases "gameStatus env = PLAYING")
  case False
  then have eq: "timerEffect env st = st"
    by (simp add: timerEffect_def)
  from assms(1) show ?thesis by (simp only: eq)
next
  case True
  show ?thesis
  proof (cases "timeLeft env > 0")
    case running: True
    with True have "timerEffect env st = st\<lparr>timerRef := Some (intervalCount st),
        intervals := intervals st @ [intervalCount st], intervalCount := intervalCount st + 1\<rparr>"
      by (simp add: timerEffect_def)
    with assms(1) show ?thesis by (simp add: roundInv_def)
  next
    case expired: False
    with True have eq: "timerEffect env st = handleTimeUp env st"
      by (simp add: timerEffect_def)
    from True assms(2) have "gameStatus st = PLAYING" by simp
    with assms(1) have "roundInv (handleTimeUp env st)" by (rule inv_handleTimeUp)
    then show ?thesis by (simp only: eq)
  qed
qed

lemma inv_prefetchEffect: "roundInv st \<Longrightarrow> roundInv (prefetchEffect st st)"
  by (erule roundInv_same) (simp_all add: prefetchEffect_def prefetchNextRound_def Let_def)

lemma inv_prefetch_then: "roundInv st \<Longrightarrow> providerData d \<Longrightarrow> roundInv (prefetch_then p d st)"
  by (simp add: prefetch_then_def roundInv_def)

lemma inv_prefetch_catch: "roundInv st \<Longrightarrow> roundInv (prefetch_catch p st)"
  by (erule roundInv_same) (simp_all add: prefetch_catch_def)

lemma inv_style:
  "roundInv st \<Longrightarrow> roundInv (styleEffect (setImageStyle style st) (setImageStyle style st))"
  by (simp add: styleEffect_def setImageStyle_def roundInv_def)

lemma inv_handleResetGame: "roundInv st \<Longrightarrow> roundInv (handleResetGame st)"
  by (fastforce simp add: handleResetGame_def Let_def roundInv_def)

lemma inv_unmount: "roundInv st \<Longrightarrow> roundInv (unmount st)"
  by (erule roundInv_same) (simp_all add: unmount_def)

lemma reachable_roundInv: "reachable st \<Longrightarrow> roundInv st"
proof (induction rule: reachable.induct)
  case mounted
  show ?case by (rule inv_initial)
next
  case (start_clicked st)
  then show ?case by (simp add: inv_startNewGame)
next
  case (content_settled st res rid)
  then show ?case by (simp add: inv_resume)
next
  case (input st raw)
  then show ?case by (simp add: inv_submitGuess)
next
  case (guess_effect st)
  then show ?case by (simp add: inv_guessEffect)
next
  case (timeout_fired st)
  then show ?case by (simp add: inv_fireTimeout)
next
  case (ticked st)
  then show ?case by (simp add: inv_tick)
next
  case (timer_effect st)
  then show ?case by (simp add: inv_timerEffect inv_timerEffect_cleanup)
next
  case (prefetch_effect st)
  then show ?case by (simp add: inv_prefetchEffect)
next
  case (prefetch_fulfilled st d p)
  then show ?case by (simp add: inv_prefetch_then)
next
  case (prefetch_rejected st p)
  then show ?case by (simp add: inv_prefetch_catch)
next
  case (style_changed st style)
  then show ?case by (simp add: inv_style)
next
  case (reset_clicked st)
  then show ?case by (simp add: inv_handleResetGame)
next
  case (unmounted st)
  then show ?case by (simp add: inv_unmount)
qed



subsection \<open>The countdown interval\<close>

lemma intervals_cleanupTimer_eq:
  "intervals (cleanupTimer st)
     = (case timerRef st of None \<Rightarrow> intervals st | Some i \<Rightarrow> removeAll i (intervals st))"
  by (simp add: cleanupTimer_def split: option.split)

lemma timerInv_same:
  "timerInv st \<Longrightarrow> intervals st' = intervals st \<Longrightarrow> timerRef st' = timerRef st \<Longrightarrow> timerInv st'"
  by (simp add: timerInv_def)

lemma timerInv_stopped: "intervals st' = [] \<Longrightarrow> timerInv st'"
  by (simp add: timerInv_def)

lemma removeAll_only: "set xs \<subseteq> {x} \<Longrightarrow> removeAll x xs = []"
  by (induction xs) auto

lemma cleanupTimer_stops: "timerInv st \<Longrightarrow> intervals (cleanupTimer st) = []"
  by (auto simp add: timerInv_def intervals_cleanupTimer_eq removeAll_only split: option.split)

lemma timerEffect_cleanup_stops: "timerInv st \<Longrightarrow> intervals (timerEffect_cleanup st) = []"
  by (auto simp add: timerInv_def timerEffect_cleanup_def removeAll_only split: option.split)

lemma prologue_timer:
  "intervals (startNewGame_prologue env st) = intervals (cleanupTimer st)"
  "timerRef (startNewGame_prologue env st) = None"
  by (simp_all add: startNewGame_prologue_def Let_def intervals_cleanupTimer_eq
      split: option.split)

lemma resolveContent_timer [simp]:
  "intervals (snd (resolveContent env st)) = intervals st"
  "timerRef (snd (resolveContent env st)) = timerRef st"
  by (simp_all add: resolveContent_def split: option.split)

lemma startNewGame_timer:
  "gameStatus env \<noteq> LOADING \<Longrightarrow> intervals (startNewGame env st) = intervals (cleanupTimer st)"
  "gameStatus env = LOADING \<Longrightarrow> intervals (startNewGame env st) = intervals st"
  "gameStatus env = LOADING \<Longrightarrow> timerRef (startNewGame env st) = timerRef st"
  by (simp_all add: startNewGame_def Let_def split_beta prologue_timer intervals_cleanupTimer_eq
      split: option.split)

lemma timerInv_startNewGame: "timerInv st \<Longrightarrow> timerInv (startNewGame st st)"
  by (cases "gameStatus st = LOADING")
     (simp_all add: timerInv_same timerInv_stopped startNewGame_timer cleanupTimer_stops)

lemma startNewGame_settled_timer [simp]:
  "intervals (startNewGame_settled rid res st) = intervals st"
  "timerRef (startNewGame_settled rid res st) = timerRef st"
  by (simp_all add: startNewGame_settled_def handleGameData_def Let_def split: outcome.split)

lemma resume_timer [simp]:
  "intervals (resume rid res st) = intervals st"
  "timerRef (resume rid res st) = timerRef st"
  by (simp_all add: resume_def split: option.split)

lemma handleCorrectGuess_timer:
  "gameStatus env = PLAYING \<Longrightarrow> intervals (handleCorrectGuess env st) = intervals (cleanupTimer st)"
  "gameStatus env \<noteq> PLAYING \<Longrightarrow> handleCorrectGuess env st = st"
  by (simp_all add: handleCorrectGuess_def Let_def intervals_cleanupTimer_eq
      split: option.split)

lemma timerInv_handleCorrectGuess: "timerInv st \<Longrightarrow> timerInv (handleCorrectGuess env st)"
  by (cases "gameStatus env = PLAYING")
     (simp_all add: timerInv_stopped handleCorrectGuess_timer cleanupTimer_stops)

lemma timerInv_handleIncorrectGuess: "timerInv st \<Longrightarrow> timerInv (handleIncorrectGuess st)"
  by (erule timerInv_same) (simp_all add: handleIncorrectGuess_def)

lemma timerInv_guessEffect: "timerInv st \<Longrightarrow> timerInv (guessEffect env st)"
  by (simp add: guessEffect_def timerInv_handleCorrectGuess timerInv_handleIncorrectGuess)

lemma timerInv_handleInput: "timerInv st \<Longrightarrow> timerInv (handleInput env raw st)"
  by (erule timerInv_same) (simp_all add: handleInput_def handleGuessChange_def Let_def)

lemma timerInv_submitGuess: "timerInv st \<Longrightarrow> timerInv (submitGuess raw st)"
  by (simp add: submitGuess_def Let_def timerInv_handleInput timerInv_guessEffect)

lemma timerInv_fireTimeout: "timerInv st \<Longrightarrow> timerInv (fireTimeout st)"
  by (erule timerInv_same)
     (simp_all add: fireTimeout_def wrongGuessTimeout_def split: list.split)

lemma timerInv_handleTimeUp: "timerInv st \<Longrightarrow> timerInv (handleTimeUp env st)"
proof -
  assume "timerInv st"
  then have "timerInv (st\<lparr>gameStatus := LOST\<rparr>)" by (simp add: timerInv_def)
  then have "intervals (cleanupTimer (st\<lparr>gameStatus := LOST\<rparr>)) = []"
    by (rule cleanupTimer_stops)
  then show ?thesis by (simp add: handleTimeUp_def timerInv_stopped)
qed

lemma timerInv_timerEffect:
  assumes "timerInv st"
  shows "timerInv (timerEffect env (timerEffect_cleanup st))"
proof -
  let ?c = "timerEffect_cleanup st"
  have stopped: "intervals ?c = []"
    using assms by (rule timerEffect_cleanup_stops)
  then have c: "timerInv ?c" by (rule timerInv_stopped)
  show ?thesis
  proof (cases "gameStatus env = PLAYING")
    case False
    then have "timerEffect env ?c = ?c" by (simp add: timerEffect_def)
    with c show ?thesis by simp
  next
    case True
    show ?thesis
    proof (cases "timeLeft env > 0")
      case running: True
      with True have "timerEffect env ?c = ?c\<lparr>timerRef := Some (intervalCount ?c),
          intervals := intervals ?c @ [intervalCount ?c], intervalCount := intervalCount ?c + 1\<rparr>"
        by (simp add: timerEffect_def)
      with stopped show ?thesis by (simp add: timerInv_def)
    next
      case expired: False
      with True have "timerEffect env ?c = handleTimeUp env ?c"
        by (simp add: timerEffect_def)
      with c show ?thesis by (simp add: timerInv_handleTimeUp)
    qed
  qed
qed

lemma timerInv_handleResetGame:
  assumes "timerInv st"
  shows "intervals (handleResetGame st) = []" and "timerInv (handleResetGame st)"
proof -
  from assms have "timerInv (st\<lparr>roundIdRef := roundIdRef st + 1\<rparr>)"
    by (simp add: timerInv_def)
  then have "intervals (cleanupTimer (st\<lparr>roundIdRef := roundIdRef st + 1\<rparr>)) = []"
    by (rule cleanupTimer_stops)
  then show "intervals (handleResetGame st) = []"
    by (simp add: handleResetGame_def Let_def)
  then show "timerInv (handleResetGame st)" by (rule timerInv_stopped)
qed

lemma timerInv_unmount: "timerInv st \<Longrightarrow> timerInv (unmount st)"
proof -
  assume "timerInv st"
  then have "timerInv (st\<lparr>isMounted := False\<rparr>)" by (simp add: timerInv_def)
  then have "intervals (unmount st) = []"
    unfolding unmount_def by (rule cleanupTimer_stops)
  then show ?thesis by (rule timerInv_stopped)
qed

lemma reachable_timerInv: "reachable st \<Longrightarrow> timerInv st"
proof (induction rule: reachable.induct)
  case mounted
  show ?case by (simp add: timerInv_def initial_def)
next
  case (start_clicked st)
  then show ?case by (simp add: timerInv_startNewGame)
next
  case (content_settled st res rid)
  then show ?case by (simp add: timerInv_def)
next
  case (input st raw)
  then show ?case by (simp add: timerInv_submitGuess)
next
  case (guess_effect st)
  then show ?case by (simp add: timerInv_guessEffect)
next
  case (timeout_fired st)
  then show ?case by (simp add: timerInv_fireTimeout)
next
  case (timer_effect st)
  then show ?case by (simp add: timerInv_timerEffect)
next
  case (ticked st)
  then show ?case by (simp add: timerInv_def tick_def)
next
  case (prefetch_effect st)
  then show ?case
    by (simp add: timerInv_def prefetchEffect_def prefetchNextRound_def Let_def)
next
  case (prefetch_fulfilled st d p)
  then show ?case by (simp add: timerInv_def prefetch_then_def)
next
  case (prefetch_rejected st p)
  then show ?case by (simp add: timerInv_def prefetch_catch_def)
next
  case (style_changed st style)
  then show ?case by (simp add: timerInv_def styleEffect_def setImageStyle_def)
next
  case (reset_clicked st)
  then show ?case by (simp add: timerInv_handleResetGame)
next
  case (unmounted st)
  then show ?case by (simp add: timerInv_unmount)
qed

subsection \<open>The example rounds are reachable\<close>

lemma providerData_examples: "providerData inception" "providerData dieHard"
  by (simp_all add: providerData_def inception_def dieHard_def)

lemma reachable_loadingRound1: "reachable loadingRound1"
  unfolding loadingRound1_def by (rule reachable.start_clicked) (rule reachable.mounted)

lemma reachable_playingRound1: "reachable playingRound1"
  unfolding playingRound1_def using reachable_loadingRound1
  by (rule reachable.content_settled) (simp add: providerData_examples)

lemma reachable_wonRound1: "reachable wonRound1"
  unfolding wonRound1_def using reachable_playingRound1 by (rule reachable.input)

lemma reachable_prefetchingRound2: "reachable prefetchingRound2"
  unfolding prefetchingRound2_def using reachable_wonRound1 by (rule reachable.prefetch_effect)

lemma reachable_prefetchedRound2: "reachable prefetchedRound2"
  unfolding prefetchedRound2_def using reachable_prefetchingRound2
  by (rule reachable.prefetch_fulfilled) (rule providerData_examples)

lemma reachable_wrongRound1: "reachable wrongRound1"
  unfolding wrongRound1_def using reachable_playingRound1 by (rule reachable.input)

lemma reachable_playingRound3: "reachable playingRound3"
proof -
  have "reachable resetAfterWrong"
    unfolding resetAfterWrong_def using reachable_wrongRound1 by (rule reachable.reset_clicked)
  then have "reachable loadingRound3"
    unfolding loadingRound3_def by (rule reachable.start_clicked)
  then show ?thesis
    unfolding playingRound3_def
    by (rule reachable.content_settled) (simp add: providerData_examples)
qed

lemma reachable_typingRound3: "reachable typingRound3"
  unfolding typingRound3_def using reachable_playingRound3 by (rule reachable.input)

lemma resume_stale:
  assumes "roundIdRef st \<noteq> rid"
  shows "resume rid res st = st\<lparr>suspended := filter (\<lambda>a. fst a \<noteq> rid) (suspended st)\<rparr>"
proof (cases "map_of (suspended st) rid")
  case None
  then have "\<forall>a \<in> set (suspended st). fst a \<noteq> rid"
    by (auto simp add: map_of_eq_None_iff)
  then have "filter (\<lambda>a. fst a \<noteq> rid) (suspended st) = suspended st"
    by (simp add: filter_id_conv)
  with None show ?thesis by (simp add: resume_def)
next
  case (Some a)
  with assms show ?thesis by (simp add: resume_def settled_stale)
qed

text \<open>
  C1.  A settled content fetch is committed only by the activation whose captured
  \<open>roundId\<close> is the current \<open>roundIdRef\<close>.  (1) When the captured id differs,
  the continuation of \<open>startNewGame\<close> returns the state unchanged, whether the
  promise fulfilled or rejected: no field is written, \<open>error\<close> included.  (2)
  After any sequence of \<open>startNewGame\<close> calls issued with no fetch settling in
  between, whatever their closures, \<open>roundIdRef\<close> has grown by the number of
  calls, so the continuation of every call but the last is discarded.  (3) A
  continuation that changes the state has the current id and runs on a mounted
  component.  (4) With the current id, on a mounted component, a fulfilled fetch
  is committed: answer, explanation, imageUrl, pastConcepts and status.  (5) In
  every reachable state each suspended activation has an id up to the current
  one, and the current one only while the status is \<open>LOADING\<close>.  In (1) the
  suspended activation ends as well: \<open>resume\<close> only takes it off the list.
\<close>

theorem stale_round_results_discarded:
  "(roundIdRef st \<noteq> rid \<longrightarrow>
      startNewGame_settled rid res st = st \<and>
      resume rid res st = st\<lparr>suspended := filter (\<lambda>a. fst a \<noteq> rid) (suspended st)\<rparr>) \<and>
   (rid \<noteq> roundIdRef st + length envs \<longrightarrow>
      startNewGame_settled rid res (startNewGames envs st) = startNewGames envs st) \<and>
   (startNewGame_settled rid res st \<noteq> st \<longrightarrow> roundIdRef st = rid \<and> isMounted st) \<and>
   (isMounted st \<and> roundIdRef st = rid \<longrightarrow>
      (let st' = startNewGame_settled rid (Fulfilled d) st
       in answer st' = concept d \<and> explanation st' = gd_explanation d \<and>
          imageUrl st' = gd_imageUrl d \<and> pastConcepts st' = pastConcepts st @ [concept d] \<and>
          gameStatus st' = PLAYING)) \<and>
   (reachable st \<longrightarrow>
      (\<forall>a \<in> set (suspended st).
         fst a \<le> roundIdRef st \<and> (fst a = roundIdRef st \<longrightarrow> gameStatus st = LOADING)))"
proof (intro conjI impI)
  assume "roundIdRef st \<noteq> rid"
  then show "startNewGame_settled rid res st = st"
    and "resume rid res st = st\<lparr>suspended := filter (\<lambda>a. fst a \<noteq> rid) (suspended st)\<rparr>"
    by (simp_all add: settled_stale resume_stale)
next
  assume "reachable st"
  then have "roundInv st" by (rule reachable_roundInv)
  then show "\<forall>a \<in> set (suspended st).
         fst a \<le> roundIdRef st \<and> (fst a = roundIdRef st \<longrightarrow> gameStatus st = LOADING)"
    by (simp add: roundInv_def)
next
  assume "rid \<noteq> roundIdRef st + length envs"
  then have "roundIdRef (startNewGames envs st) \<noteq> rid"
    by (simp add: roundIdRef_startNewGames)
  then show "startNewGame_settled rid res (startNewGames envs st) = startNewGames envs st"
    by (rule settled_stale)
next
  assume changed: "startNewGame_settled rid res st \<noteq> st"
  show "roundIdRef st = rid" using changed settled_stale by blast
  show "isMounted st" using changed settled_unmounted by blast
next
  assume "isMounted st \<and> roundIdRef st = rid"
  then show "let st' = startNewGame_settled rid (Fulfilled d) st
       in answer st' = concept d \<and> explanation st' = gd_explanation d \<and>
          imageUrl st' = gd_imageUrl d \<and> pastConcepts st' = pastConcepts st @ [concept d] \<and>
          gameStatus st' = PLAYING"
    using settled_commit [of st d] by (auto simp: handleGameEvent_def Let_def)
qed

text \<open>
  Two clicks that both closed over the first render, then both fetches fulfil:
  the result of call 1 is discarded, the result of call 2 starts the round.
\<close>

theorem stale_round_results_discarded_witness:
  "roundIdRef (startNewGames [initial, initial] initial) = 2 \<and>
   isMounted (startNewGames [initial, initial] initial) \<and>
   startNewGame_settled 1 (Fulfilled inception) (startNewGames [initial, initial] initial)
     = startNewGames [initial, initial] initial \<and>
   startNewGame_settled 2 (Fulfilled dieHard) (startNewGames [initial, initial] initial)
     \<noteq> startNewGames [initial, initial] initial \<and>
   answer (startNewGame_settled 2 (Fulfilled dieHard) (startNewGames [initial, initial] initial))
     = ''Die Hard'' \<and>
   reachable loadingRound1 \<and> gameStatus loadingRound1 = LOADING"
proof -
  let ?s = "startNewGames [initial, initial] initial"
  have rid: "roundIdRef ?s = 2"
    by (simp add: roundIdRef_startNewGames initial_def)
  have mounted: "isMounted ?s"
    by (simp add: startNewGames_def startNewGame_def startNewGame_prologue_def initial_def
        Let_def resolveContent_def handleGameEvent_def cleanupTimer_def)
  have loading: "gameStatus ?s = LOADING"
    by (simp add: startNewGames_def startNewGame_def startNewGame_prologue_def initial_def
        Let_def resolveContent_def handleGameEvent_def cleanupTimer_def)
  note inst1 = stale_round_results_discarded [of ?s 1 "Fulfilled inception" "[]" inception]
  note inst2 = stale_round_results_discarded [of ?s 2 "Fulfilled dieHard" "[]" dieHard]
  have stale: "startNewGame_settled 1 (Fulfilled inception) ?s = ?s"
    using inst1 rid by simp
  have commit: "answer (startNewGame_settled 2 (Fulfilled dieHard) ?s) = ''Die Hard'' \<and>
      gameStatus (startNewGame_settled 2 (Fulfilled dieHard) ?s) = PLAYING"
    using inst2 rid mounted by (simp add: Let_def dieHard_def)
  then have changed: "startNewGame_settled 2 (Fulfilled dieHard) ?s \<noteq> ?s"
    using loading by auto
  have pending: "(1, Handle 0) \<in> set (suspended loadingRound1)" "roundIdRef loadingRound1 = 1"
    by (simp_all add: loadingRound1_def startNewGame_def startNewGame_prologue_def initial_def
        Let_def resolveContent_def handleGameEvent_def cleanupTimer_def)
  have "gameStatus loadingRound1 = LOADING"
    using stale_round_results_discarded [of loadingRound1 1 "Fulfilled inception" "[]" inception]
      reachable_loadingRound1 pending
    by fastforce
  with rid mounted stale commit changed reachable_loadingRound1 show ?thesis by simp
qed

section \<open>The example rounds, evaluated\<close>

lemma example_strings:
  "filter isAlnum ''inception'' = ''inception''"
  "answerSanitized ''Inception'' = ''Inception''"
  "toLowerCase ''inception'' = ''inception''"
  "toLowerCase ''Inception'' = ''inception''"
  by code_simp+

lemma loadingRound1_eq:
  "loadingRound1 = initial\<lparr>gameStatus := LOADING, loadingMessage := ''generating'',
     roundIdRef := 1, suspended := [(1, Handle 0)], promiseCount := 1,
     trace := [SendGameEvent (Some StartingLevel1) None, SendGameEvent None (Some Thinking),
               GetNewGameData 0 [] ''pixel art'']\<rparr>"
  by (simp add: loadingRound1_def startNewGame_def startNewGame_prologue_def initial_def
      Let_def resolveContent_def handleGameEvent_def cleanupTimer_def)

lemma playingRound1_eq:
  "playingRound1 = loadingRound1\<lparr>gameStatus := PLAYING,
     imageUrl := ''data:image/jpeg;base64,AAAA'', answer := ''Inception'',
     explanation := ''a spinning top'', pastConcepts := [''Inception''], suspended := [],
     trace := trace loadingRound1 @
        [SendGameEvent None (Some (ImageCreated ''Inception'' ''a spinning top''))]\<rparr>"
  by (simp add: playingRound1_def resume_def loadingRound1_eq startNewGame_settled_def
      handleGameData_def initial_def handleGameEvent_def Let_def inception_def ROUND_TIME_def)

lemma wonRound1_eq:
  "wonRound1 = playingRound1\<lparr>gameStatus := WON, guessValue := ''inception'', score := 1,
     trace := trace playingRound1 @ [SendGameEvent (Some Correct) None,
       SendGameEvent None (Some (GuessedCorrectly ''Inception'' ''a spinning top'' None))]\<rparr>"
  by code_simp

lemma prefetchingRound2_eq:
  "prefetchingRound2 = wonRound1\<lparr>nextGamePromiseRef := Some 1, promiseCount := 2,
     trace := trace wonRound1 @
       [GetNewGameData 1 [''Inception'', ''Inception''] ''pixel art'']\<rparr>"
  by (simp add: prefetchingRound2_def prefetchEffect_def prefetchNextRound_def Let_def
      wonRound1_eq playingRound1_eq loadingRound1_eq initial_def)

lemma prefetchedRound2_eq:
  "prefetchedRound2 = prefetchingRound2\<lparr>prefetchedGameData := Some dieHard\<rparr>"
  by (simp add: prefetchedRound2_def prefetch_then_def
      prefetchingRound2_eq wonRound1_eq playingRound1_eq loadingRound1_eq initial_def)

lemma prefetchingRound2_fields:
  "isMounted prefetchingRound2" "nextGamePromiseRef prefetchingRound2 = Some 1"
  "prefetchedGameData prefetchingRound2 = None" "promiseCount prefetchingRound2 = 2"
  "gameStatus prefetchingRound2 = WON" "roundIdRef prefetchingRound2 = 1"
  "suspended prefetchingRound2 = []"
  by (simp_all add: prefetchingRound2_eq wonRound1_eq playingRound1_eq loadingRound1_eq
      initial_def)

lemma prefetchedRound2_fields:
  "isMounted prefetchedRound2" "nextGamePromiseRef prefetchedRound2 = Some 1"
  "prefetchedGameData prefetchedRound2 = Some dieHard" "promiseCount prefetchedRound2 = 2"
  "gameStatus prefetchedRound2 = WON" "roundIdRef prefetchedRound2 = 1"
  "suspended prefetchedRound2 = []" "chatPanelRef prefetchedRound2"
  "timerRef prefetchedRound2 = None" "intervals prefetchedRound2 = []"
  by (simp_all add: prefetchedRound2_eq prefetchingRound2_eq wonRound1_eq playingRound1_eq
      loadingRound1_eq initial_def)

section \<open>Starting a round while one is loading\<close>





section \<open>The prefetch slot\<close>

lemma nextGamePromiseRef_styleEffect [simp]: "nextGamePromiseRef (styleEffect env st) = None"
  by (simp add: styleEffect_def)

lemma prefetch_then_other:
  "nextGamePromiseRef st \<noteq> Some p \<Longrightarrow> prefetch_then p d st = st"
  by (simp add: prefetch_then_def)

lemma prefetch_catch_other:
  "nextGamePromiseRef st \<noteq> Some p \<Longrightarrow> prefetch_catch p st = st"
  by (simp add: prefetch_catch_def)

text \<open>
  C10.  The callbacks of a prefetch promise act only while that promise is the
  one held in \<open>nextGamePromiseRef\<close>.  (1) If the ref holds another handle or
  none, a fulfilment stores nothing and a rejection clears nothing: the state is
  unchanged.  (2) After the style effect has run, the ref is empty, so the
  completion of any earlier prefetch is discarded.  (3) After the ref was cleared
  and a new prefetch has started, the completion of the old promise is discarded
  as well.  (4) On a mounted component whose ref holds the promise, a fulfilment
  stores the data as ready content and a rejection empties the ref, and neither
  does anything else.
\<close>

theorem prefetch_completion_needs_current_handle:
  "(nextGamePromiseRef st \<noteq> Some p \<longrightarrow>
      prefetch_then p d st = st \<and> prefetch_catch p st = st) \<and>
   prefetch_then p d (styleEffect env st) = styleEffect env st \<and>
   prefetch_catch p (styleEffect env st) = styleEffect env st \<and>
   (p < promiseCount st \<longrightarrow>
      prefetch_then p d (prefetchNextRound env (styleEffect env st))
        = prefetchNextRound env (styleEffect env st)) \<and>
   (isMounted st \<and> nextGamePromiseRef st = Some p \<longrightarrow>
      prefetch_then p d st = st\<lparr>prefetchedGameData := Some d\<rparr> \<and>
      prefetch_catch p st = st\<lparr>nextGamePromiseRef := None\<rparr>)"
proof (intro conjI impI)
  assume "nextGamePromiseRef st \<noteq> Some p"
  then show "prefetch_then p d st = st" and "prefetch_catch p st = st"
    by (simp_all add: prefetch_then_other prefetch_catch_other)
next
  show "prefetch_then p d (styleEffect env st) = styleEffect env st"
    by (simp add: prefetch_then_other)
  show "prefetch_catch p (styleEffect env st) = styleEffect env st"
    by (simp add: prefetch_catch_other)
next
  assume old: "p < promiseCount st"
  have "promiseCount (styleEffect env st) = promiseCount st"
    by (simp add: styleEffect_def)
  with old have "nextGamePromiseRef (prefetchNextRound env (styleEffect env st)) \<noteq> Some p"
    by (simp add: prefetchNextRound_def Let_def)
  then show "prefetch_then p d (prefetchNextRound env (styleEffect env st))
        = prefetchNextRound env (styleEffect env st)"
    by (rule prefetch_then_other)
next
  assume "isMounted st \<and> nextGamePromiseRef st = Some p"
  then show "prefetch_then p d st = st\<lparr>prefetchedGameData := Some d\<rparr>"
    and "prefetch_catch p st = st\<lparr>nextGamePromiseRef := None\<rparr>"
    by (simp_all add: prefetch_then_def prefetch_catch_def)
qed

text \<open>
  A prefetch is pending with handle 1.  The completion of the older promise 0 is
  discarded; the completion of promise 1 is stored; after a style change and a
  new prefetch, the completion of promise 1 is discarded.
\<close>

theorem prefetch_completion_needs_current_handle_witness:
  "nextGamePromiseRef prefetchingRound2 = Some 1 \<and> isMounted prefetchingRound2 \<and>
   prefetch_then 0 inception prefetchingRound2 = prefetchingRound2 \<and>
   prefetch_catch 0 prefetchingRound2 = prefetchingRound2 \<and>
   prefetch_then 1 dieHard prefetchingRound2
     = prefetchingRound2\<lparr>prefetchedGameData := Some dieHard\<rparr> \<and>
   prefetch_catch 1 prefetchingRound2 = prefetchingRound2\<lparr>nextGamePromiseRef := None\<rparr> \<and>
   prefetch_then 1 dieHard
      (prefetchNextRound prefetchingRound2 (styleEffect prefetchingRound2 prefetchingRound2))
     = prefetchNextRound prefetchingRound2 (styleEffect prefetchingRound2 prefetchingRound2)"
  using prefetch_completion_needs_current_handle
          [of prefetchingRound2 0 inception prefetchingRound2]
        prefetch_completion_needs_current_handle
          [of prefetchingRound2 1 dieHard prefetchingRound2]
  by (simp add: prefetchingRound2_fields)

section \<open>Content resolution of a new round\<close>

lemma startNewGame_suspended:
  "gameStatus env \<noteq> LOADING \<Longrightarrow> isMounted st \<Longrightarrow>
   suspended (startNewGame env st)
     = suspended st @ [(roundIdRef st + 1,
         case prefetchedGameData env of
           Some data \<Rightarrow> Resolved data
         | None \<Rightarrow> (case nextGamePromiseRef st of
                      Some p \<Rightarrow> Handle p
                    | None \<Rightarrow> Handle (promiseCount st)))]"
  by (simp add: startNewGame_def Let_def split_beta resolveContent_fst split: option.split)

lemma startNewGame_providerCalls:
  "gameStatus env \<noteq> LOADING \<Longrightarrow>
   providerCalls (trace (startNewGame env st))
     = providerCalls (trace st) @
       (if prefetchedGameData env = None \<and> nextGamePromiseRef st = None
        then [GetNewGameData (promiseCount st) (pastConcepts env) (imageStyle env)] else [])"
  by (simp add: startNewGame_def Let_def split_beta resolveContent_providerCalls)

lemma startNewGame_slot:
  "gameStatus env \<noteq> LOADING \<Longrightarrow>
   nextGamePromiseRef (startNewGame env st) = None \<and>
   prefetchedGameData (startNewGame env st)
     = (if prefetchedGameData env = None then prefetchedGameData st else None)"
  by (simp add: startNewGame_def Let_def split_beta resolveContent_slot)

text \<open>
  C5.  \<open>startNewGame\<close>, called on a mounted component by a closure whose status
  is not \<open>LOADING\<close>, chooses the promise it awaits in this order.  (1) The
  closure holds prefetched data: the activation awaits \<open>Promise.resolve(data)\<close>,
  the list of provider calls is unchanged and the slot (data and ref) is emptied.
  (2) Otherwise the ref holds a pending promise: the activation awaits that same
  promise, the list of provider calls is unchanged and the ref is emptied.  (3)
  Otherwise exactly one call \<open>getNewGameData(pastConcepts, imageStyle)\<close> is added
  and its promise is awaited.  On the rendered component the closure is the
  state itself (\<open>env = st\<close>).
\<close>

theorem startNewGame_content_resolution_order:
  assumes "gameStatus env \<noteq> LOADING" and "isMounted st"
  shows "(prefetchedGameData env = Some data \<longrightarrow>
            suspended (startNewGame env st)
              = suspended st @ [(roundIdRef st + 1, Resolved data)] \<and>
            providerCalls (trace (startNewGame env st)) = providerCalls (trace st) \<and>
            prefetchedGameData (startNewGame env st) = None \<and>
            nextGamePromiseRef (startNewGame env st) = None) \<and>
         (prefetchedGameData env = None \<and> nextGamePromiseRef st = Some p \<longrightarrow>
            suspended (startNewGame env st)
              = suspended st @ [(roundIdRef st + 1, Handle p)] \<and>
            providerCalls (trace (startNewGame env st)) = providerCalls (trace st) \<and>
            nextGamePromiseRef (startNewGame env st) = None) \<and>
         (prefetchedGameData env = None \<and> nextGamePromiseRef st = None \<longrightarrow>
            suspended (startNewGame env st)
              = suspended st @ [(roundIdRef st + 1, Handle (promiseCount st))] \<and>
            providerCalls (trace (startNewGame env st))
              = providerCalls (trace st) @
                [GetNewGameData (promiseCount st) (pastConcepts env) (imageStyle env)])"
  using assms
  by (simp add: startNewGame_suspended startNewGame_providerCalls startNewGame_slot)

text \<open>
  "Next" after the win of round 1: with the prefetched content ready, with the
  prefetch still pending, and before any prefetch was started.
\<close>

theorem startNewGame_content_resolution_order_witness:
  "suspended (startNewGame prefetchedRound2 prefetchedRound2) = [(2, Resolved dieHard)] \<and>
   providerCalls (trace (startNewGame prefetchedRound2 prefetchedRound2))
     = providerCalls (trace prefetchedRound2) \<and>
   suspended (startNewGame prefetchingRound2 prefetchingRound2) = [(2, Handle 1)] \<and>
   providerCalls (trace (startNewGame prefetchingRound2 prefetchingRound2))
     = providerCalls (trace prefetchingRound2) \<and>
   suspended (startNewGame initial initial) = [(1, Handle 0)] \<and>
   providerCalls (trace (startNewGame initial initial))
     = [GetNewGameData 0 [] ''pixel art'']"
proof -
  have ready: "suspended (startNewGame prefetchedRound2 prefetchedRound2)
        = [(2, Resolved dieHard)] \<and>
      providerCalls (trace (startNewGame prefetchedRound2 prefetchedRound2))
        = providerCalls (trace prefetchedRound2)"
    using startNewGame_content_resolution_order
            [of prefetchedRound2 prefetchedRound2 dieHard 1]
    by (simp add: prefetchedRound2_fields)
  have pending: "suspended (startNewGame prefetchingRound2 prefetchingRound2)
        = [(2, Handle 1)] \<and>
      providerCalls (trace (startNewGame prefetchingRound2 prefetchingRound2))
        = providerCalls (trace prefetchingRound2)"
    using startNewGame_content_resolution_order
            [of prefetchingRound2 prefetchingRound2 dieHard 1]
    by (simp add: prefetchingRound2_fields)
  have fresh: "suspended (startNewGame initial initial) = [(1, Handle 0)] \<and>
      providerCalls (trace (startNewGame initial initial))
        = [GetNewGameData 0 [] ''pixel art'']"
    using startNewGame_content_resolution_order [of initial initial dieHard 1]
    by (simp add: initial_def providerCalls_def)
  from ready pending fresh show ?thesis by simp
qed


section \<open>Reset\<close>

lemma cleanupTimer_idle: "timerRef st = None \<Longrightarrow> cleanupTimer st = st"
  by (simp add: cleanupTimer_def)

lemma handleResetGame_fields:
  "gameStatus (handleResetGame st) = IDLE"
  "score (handleResetGame st) = 0"
  "level (handleResetGame st) = 1"
  "pastConcepts (handleResetGame st) = []"
  "answer (handleResetGame st) = []"
  "explanation (handleResetGame st) = []"
  "imageUrl (handleResetGame st) = []"
  "guessValue (handleResetGame st) = []"
  "isWrongGuess (handleResetGame st) = False"
  "timeLeft (handleResetGame st) = ROUND_TIME"
  "error (handleResetGame st) = None"
  "loadingMessage (handleResetGame st) = []"
  "timerRef (handleResetGame st) = None"
  "roundIdRef (handleResetGame st) = roundIdRef st + 1"
  "prefetchedGameData (handleResetGame st) = prefetchedGameData st"
  "nextGamePromiseRef (handleResetGame st) = nextGamePromiseRef st"
  "chatPanelRef (handleResetGame st) = chatPanelRef st"
  "trace (handleResetGame st) = trace st @ (if chatPanelRef st then [ChatReset] else [])"
  by (simp_all add: handleResetGame_def Let_def)

lemma handleResetGame_intervals:
  "set (intervals (handleResetGame st)) = set (intervals st) - set_option (timerRef st)"
  by (simp add: handleResetGame_def Let_def cleanupTimer_def split: option.split)

lemma handleResetGame_twice:
  "handleResetGame (handleResetGame st)
     = (handleResetGame st)\<lparr>roundIdRef := roundIdRef st + 2,
          trace := trace (handleResetGame st) @ (if chatPanelRef st then [ChatReset] else [])\<rparr>"
  by (simp add: handleResetGame_def Let_def cleanupTimer_def split: option.split)

text \<open>
  C3, as amended.  \<open>handleResetGame\<close> has no guard, so it runs from every state.
  Afterwards the status is \<open>IDLE\<close>, score 0, level 1, \<open>pastConcepts\<close> empty, the
  round content, the guess, the flag and the error are cleared, \<open>timeLeft\<close> is
  \<open>ROUND_TIME\<close>, the interval held in \<open>timerRef\<close> is cleared and the ref emptied,
  and \<open>roundIdRef\<close> is one more than before.  The prefetch slot is not written:
  the ready content and the pending handle are what they were.  A second reset
  right after the first yields the same state except that \<open>roundIdRef\<close> has
  grown once more and the chat panel was reset once more.  In a reachable state
  the interval in \<open>timerRef\<close> is the only live one, so after the reset no
  interval is live.
\<close>

theorem handleResetGame_result:
  "gameStatus (handleResetGame st) = IDLE \<and>
   score (handleResetGame st) = 0 \<and>
   level (handleResetGame st) = 1 \<and>
   pastConcepts (handleResetGame st) = [] \<and>
   answer (handleResetGame st) = [] \<and>
   explanation (handleResetGame st) = [] \<and>
   imageUrl (handleResetGame st) = [] \<and>
   guessValue (handleResetGame st) = [] \<and>
   isWrongGuess (handleResetGame st) = False \<and>
   error (handleResetGame st) = None \<and>
   timeLeft (handleResetGame st) = ROUND_TIME \<and>
   timerRef (handleResetGame st) = None \<and>
   set (intervals (handleResetGame st)) = set (intervals st) - set_option (timerRef st) \<and>
   roundIdRef (handleResetGame st) = roundIdRef st + 1 \<and>
   roundIdRef st < roundIdRef (handleResetGame st) \<and>
   prefetchedGameData (handleResetGame st) = prefetchedGameData st \<and>
   nextGamePromiseRef (handleResetGame st) = nextGamePromiseRef st \<and>
   handleResetGame (handleResetGame st)
     = (handleResetGame st)\<lparr>roundIdRef := roundIdRef st + 2,
          trace := trace (handleResetGame st) @ (if chatPanelRef st then [ChatReset] else [])\<rparr> \<and>
   (reachable st \<longrightarrow> intervals (handleResetGame st) = [])"
proof -
  have "intervals (handleResetGame st) = []" if "reachable st"
    using that by (intro timerInv_handleResetGame reachable_timerInv)
  then show ?thesis
    using handleResetGame_twice [of st]
    by (simp add: handleResetGame_fields handleResetGame_intervals)
qed

text \<open>Reset after round 1 was won and the content of round 2 was prefetched.\<close>

theorem handleResetGame_result_witness:
  "gameStatus (handleResetGame prefetchedRound2) = IDLE \<and>
   score (handleResetGame prefetchedRound2) = 0 \<and>
   level (handleResetGame prefetchedRound2) = 1 \<and>
   pastConcepts (handleResetGame prefetchedRound2) = [] \<and>
   roundIdRef (handleResetGame prefetchedRound2) = 2 \<and>
   prefetchedGameData (handleResetGame prefetchedRound2) = Some dieHard \<and>
   roundIdRef (handleResetGame (handleResetGame prefetchedRound2)) = 3 \<and>
   gameStatus (handleResetGame (handleResetGame prefetchedRound2)) = IDLE \<and>
   reachable prefetchedRound2 \<and> intervals (handleResetGame prefetchedRound2) = []"
  using handleResetGame_result [of prefetchedRound2]
        handleResetGame_result [of "handleResetGame prefetchedRound2"]
        reachable_prefetchedRound2
  by (simp add: prefetchedRound2_fields)

text \<open>
  C3 as stated fails: after a reset of the component that holds prefetched
  content and its handle, both are still in the slot.
\<close>

theorem handleResetGame_keeps_prefetch_slot:
  "prefetchedGameData prefetchedRound2 = Some dieHard \<and>
   nextGamePromiseRef prefetchedRound2 = Some 1 \<and>
   prefetchedGameData (handleResetGame prefetchedRound2) \<noteq> None \<and>
   nextGamePromiseRef (handleResetGame prefetchedRound2) \<noteq> None"
  by (simp add: handleResetGame_fields prefetchedRound2_fields)

section \<open>Guess input\<close>

lemma handleInput_answer [simp]: "answer (handleInput env raw st) = answer st"
  by (simp add: handleInput_def handleGuessChange_def Let_def)

lemma handleInput_locked: "isWrongGuess env \<Longrightarrow> handleInput env raw st = st"
  by (simp add: handleInput_def)

lemma handleInput_accepted:
  "gameStatus env = PLAYING \<Longrightarrow> \<not> isWrongGuess env \<Longrightarrow>
   handleInput env raw st
     = st\<lparr>guessValue := take (length (answerSanitized (answer env))) (filter isAlnum raw)\<rparr>"
  by (simp add: handleInput_def handleGuessChange_def isDisabled_def Let_def)

lemma handleInput_length:
  "length (guessValue (handleInput env raw st))
     \<le> max (length (guessValue st)) (length (answerSanitized (answer env)))"
  by (auto simp add: handleInput_def handleGuessChange_def Let_def)

lemma submitGuess_answer [simp]: "answer (submitGuess raw st) = answer st"
  by (simp add: submitGuess_def Let_def)

lemma submitGuess_guessValue:
  "guessValue (submitGuess raw st) = guessValue (handleInput st raw st)"
  by (simp add: submitGuess_def Let_def)

lemma submitGuess_locked: "isWrongGuess st \<Longrightarrow> submitGuess raw st = st"
  by (simp add: submitGuess_def handleInput_locked)

lemma submitGuesses_Cons:
  "submitGuesses (raw # raws) st = submitGuesses raws (submitGuess raw st)"
  by (simp add: submitGuesses_def)

lemma submitGuesses_answer [simp]: "answer (submitGuesses raws st) = answer st"
  by (induction raws arbitrary: st) (simp_all add: submitGuesses_Cons, simp add: submitGuesses_def)

lemma submitGuesses_length:
  "length (guessValue (submitGuesses raws st))
     \<le> max (length (guessValue st)) (length (answerSanitized (answer st)))"
proof (induction raws arbitrary: st)
  case Nil
  show ?case by (simp add: submitGuesses_def)
next
  case (Cons raw raws)
  have "length (guessValue (submitGuesses raws (submitGuess raw st)))
      \<le> max (length (guessValue (submitGuess raw st))) (length (answerSanitized (answer st)))"
    using Cons.IH [of "submitGuess raw st"] by simp
  moreover have "length (guessValue (submitGuess raw st))
      \<le> max (length (guessValue st)) (length (answerSanitized (answer st)))"
    using handleInput_length [of st raw st] by (simp add: submitGuess_guessValue)
  ultimately show ?case by (simp add: submitGuesses_Cons)
qed

lemma submitGuesses_locked: "isWrongGuess st \<Longrightarrow> submitGuesses raws st = st"
  by (induction raws) (simp_all add: submitGuesses_Cons submitGuess_locked, simp add: submitGuesses_def)

text \<open>
  C7.  Whatever inputs are submitted, the guess never becomes longer than the
  sanitized answer: (1) after any sequence of input events the guess is no
  longer than the larger of its old length and the sanitized answer's length, so
  (2) a guess within the bound stays within it; (3) an input accepted while a
  round is played replaces the guess by the input stripped of every character
  outside a-z, A-Z, 0-9 and cut to the sanitized answer's length; (4) in every
  reachable state the guess is no longer than the sanitized answer.
\<close>

theorem guess_never_longer_than_sanitized_answer:
  "length (guessValue (submitGuesses raws st))
     \<le> max (length (guessValue st)) (length (answerSanitized (answer st))) \<and>
   (length (guessValue st) \<le> length (answerSanitized (answer st)) \<longrightarrow>
      length (guessValue (submitGuesses raws st)) \<le> length (answerSanitized (answer st))) \<and>
   (gameStatus st = PLAYING \<and> \<not> isWrongGuess st \<longrightarrow>
      guessValue (submitGuess raw st)
        = take (length (answerSanitized (answer st))) (filter isAlnum raw) \<and>
      length (guessValue (submitGuess raw st)) \<le> length (answerSanitized (answer st))) \<and>
   (reachable st \<longrightarrow> length (guessValue st) \<le> length (answerSanitized (answer st)))"
proof (intro conjI impI)
  assume "reachable st"
  then have "roundInv st" by (rule reachable_roundInv)
  then show "length (guessValue st) \<le> length (answerSanitized (answer st))"
    by (simp add: roundInv_def)
next
  show bound: "length (guessValue (submitGuesses raws st))
     \<le> max (length (guessValue st)) (length (answerSanitized (answer st)))"
    by (rule submitGuesses_length)
  assume "length (guessValue st) \<le> length (answerSanitized (answer st))"
  with bound show "length (guessValue (submitGuesses raws st))
      \<le> length (answerSanitized (answer st))"
    by simp
next
  assume playing: "gameStatus st = PLAYING \<and> \<not> isWrongGuess st"
  then show eq: "guessValue (submitGuess raw st)
        = take (length (answerSanitized (answer st))) (filter isAlnum raw)"
    by (simp add: submitGuess_guessValue handleInput_accepted)
  show "length (guessValue (submitGuess raw st)) \<le> length (answerSanitized (answer st))"
    by (simp add: eq)
qed

lemma playingRound3_eq:
  "playingRound3 = \<lparr> gameStatus = PLAYING, imageUrl = ''data:image/jpeg;base64,BBBB'',
     imageStyle = ''pixel art'', answer = ''Die Hard'', explanation = ''a tower at night'',
     guessValue = [], isWrongGuess = False, timeLeft = 30, error = None,
     loadingMessage = ''generating'', score = 0, level = 1, pastConcepts = [''Die Hard''],
     prefetchedGameData = None, nextGamePromiseRef = None, roundIdRef = 3,
     timerRef = None, isMounted = True, chatPanelRef = True, intervals = [],
     intervalCount = 1, timeouts = [1000], suspended = [], promiseCount = 2,
     trace = [SendGameEvent (Some StartingLevel1) None, SendGameEvent None (Some Thinking),
       GetNewGameData 0 [] ''pixel art'',
       SendGameEvent None (Some (ImageCreated ''Inception'' ''a spinning top'')),
       ChatReset, SendGameEvent (Some StartingLevel1) None,
       SendGameEvent None (Some Thinking), GetNewGameData 1 [] ''pixel art'',
       SendGameEvent None (Some (ImageCreated ''Die Hard'' ''a tower at night''))] \<rparr>"
  by code_simp

lemma playingRound3_fields:
  "gameStatus playingRound3 = PLAYING" "\<not> isWrongGuess playingRound3"
  "guessValue playingRound3 = []" "answer playingRound3 = ''Die Hard''"
  "score playingRound3 = 0" "isMounted playingRound3" "roundIdRef playingRound3 = 3"
  "timeouts playingRound3 = [1000]"
  by (simp_all add: playingRound3_eq)

lemma typingRound3_eq: "typingRound3 = playingRound3\<lparr>guessValue := ''die''\<rparr>"
  by code_simp

lemma typingRound3_fields:
  "roundIdRef typingRound3 = 3" "gameStatus typingRound3 = PLAYING"
  "timeouts typingRound3 = [1000]" "guessValue typingRound3 = ''die''"
  "isMounted typingRound3" "answer typingRound3 = ''Die Hard''"
  by (simp_all add: typingRound3_eq playingRound3_eq)

text \<open>
  Round 3 is played with the answer "Die Hard" (sanitized length 7): the input
  \<open>die-hard forever\<close> leaves the seven letters \<open>diehard\<close> in the guess.
\<close>

theorem guess_never_longer_than_sanitized_answer_witness:
  "gameStatus playingRound3 = PLAYING \<and> \<not> isWrongGuess playingRound3 \<and>
   length (guessValue playingRound3) \<le> length (answerSanitized (answer playingRound3)) \<and>
   length (guessValue (submitGuesses [''die'', ''die-hard forever'', ''x''] playingRound3)) \<le> 7 \<and>
   guessValue (submitGuess ''die-hard forever'' playingRound3) = ''diehard'' \<and>
   reachable typingRound3 \<and> length (guessValue typingRound3) \<le> 7"
proof -
  have strings: "length (answerSanitized ''Die Hard'') = 7"
    by code_simp
  have typing: "length (guessValue typingRound3) \<le> 7"
    using guess_never_longer_than_sanitized_answer [of "[]" typingRound3 "[]"]
      reachable_typingRound3
    by (simp add: typingRound3_fields strings)
  show ?thesis
    using guess_never_longer_than_sanitized_answer
            [of "[''die'', ''die-hard forever'', ''x'']" playingRound3 "''die-hard forever''"]
      typing reachable_typingRound3
    by (simp add: playingRound3_fields strings isAlnum_def)
qed

section \<open>The wrong-guess lock\<close>

lemma fireTimeout_Cons:
  "timeouts st = d # ds \<Longrightarrow> fireTimeout st = wrongGuessTimeout (st\<lparr>timeouts := ds\<rparr>)"
  by (simp add: fireTimeout_def)

lemma wrongGuessTimeout_mounted:
  "isMounted st \<Longrightarrow> wrongGuessTimeout st = st\<lparr>guessValue := [], isWrongGuess := False\<rparr>"
  by (simp add: wrongGuessTimeout_def)

lemma wrongGuessTimeout_unmounted: "\<not> isMounted st \<Longrightarrow> wrongGuessTimeout st = st"
  by (simp add: wrongGuessTimeout_def)

lemma guessEffect_full_length:
  "gameStatus env = PLAYING \<Longrightarrow> answer env \<noteq> [] \<Longrightarrow> \<not> isWrongGuess env \<Longrightarrow>
   length (guessValue env) = length (answerSanitized (answer env)) \<Longrightarrow>
   guessEffect env st
     = (if toLowerCase (guessValue env) = toLowerCase (answerSanitized (answer env))
        then handleCorrectGuess env st else handleIncorrectGuess st)"
  by (simp add: guessEffect_def)

lemma wrongRound1_eq:
  "wrongRound1 = playingRound1\<lparr>guessValue := ''inceptiom'', isWrongGuess := True,
     timeouts := [1000]\<rparr>"
  by code_simp

lemma wrongRound1_fields:
  "gameStatus wrongRound1 = PLAYING" "isWrongGuess wrongRound1" "isMounted wrongRound1"
  "timeouts wrongRound1 = [1000]" "guessValue wrongRound1 = ''inceptiom''"
  "roundIdRef wrongRound1 = 1" "answer wrongRound1 = ''Inception''"
  by (simp_all add: wrongRound1_eq playingRound1_eq loadingRound1_eq initial_def)

lemma wrongRound3_eq:
  "wrongRound3 = playingRound3\<lparr>guessValue := ''diehars'', isWrongGuess := True,
     timeouts := [1000, 1000]\<rparr>"
  by code_simp

lemma wrongRound3_fields:
  "gameStatus wrongRound3 = PLAYING" "isWrongGuess wrongRound3" "isMounted wrongRound3"
  "timeouts wrongRound3 = [1000, 1000]" "guessValue wrongRound3 = ''diehars''"
  "roundIdRef wrongRound3 = 3" "answer wrongRound3 = ''Die Hard''"
  by (simp_all add: wrongRound3_eq playingRound3_eq)

lemma reachable_wrongRound3: "reachable wrongRound3"
  unfolding wrongRound3_def using reachable_playingRound3 by (rule reachable.input)

subsection \<open>Which steps touch the flag and the pending timeouts\<close>

lemma prologue_timeouts [simp]:
  "timeouts (startNewGame_prologue env st) = timeouts st"
  by (simp add: startNewGame_prologue_def Let_def)

lemma resolveContent_timeouts [simp]:
  "timeouts (snd (resolveContent env st)) = timeouts st"
  by (simp add: resolveContent_def split: option.split)

lemma startNewGame_lock:
  "timeouts (startNewGame env st) = timeouts st"
  "isWrongGuess (startNewGame env st)
     = (if gameStatus env = LOADING then isWrongGuess st else False)"
  by (simp_all add: startNewGame_def Let_def split_beta)

lemma handleResetGame_timeouts: "timeouts (handleResetGame st) = timeouts st"
  by (simp add: handleResetGame_def Let_def)

lemma startNewGame_settled_lock [simp]:
  "isWrongGuess (startNewGame_settled rid res st) = isWrongGuess st"
  "timeouts (startNewGame_settled rid res st) = timeouts st"
  by (simp_all add: startNewGame_settled_def handleGameData_def Let_def split: outcome.split)

lemma resume_lock:
  "isWrongGuess (resume rid res st) = isWrongGuess st"
  "timeouts (resume rid res st) = timeouts st"
  by (simp_all add: resume_def split: option.split)

lemma timerEffect_lock:
  "isWrongGuess (timerEffect env (timerEffect_cleanup st)) = isWrongGuess st"
  "timeouts (timerEffect env (timerEffect_cleanup st)) = timeouts st"
  by (simp_all add: timerEffect_def timerEffect_cleanup_def handleTimeUp_def
      split: option.split)

lemma other_steps_lock:
  "isWrongGuess (tick st) = isWrongGuess st"
  "isWrongGuess (prefetchEffect env st) = isWrongGuess st"
  "isWrongGuess (prefetch_then p data st) = isWrongGuess st"
  "isWrongGuess (prefetch_catch p st) = isWrongGuess st"
  "isWrongGuess (styleEffect env' (setImageStyle style st)) = isWrongGuess st"
  "isWrongGuess (unmount st) = isWrongGuess st"
  by (simp_all add: tick_def prefetchEffect_def prefetchNextRound_def Let_def
      prefetch_then_def prefetch_catch_def styleEffect_def setImageStyle_def unmount_def)

lemma guessEffect_locked: "isWrongGuess env \<Longrightarrow> guessEffect env st = st"
  by (simp add: guessEffect_def)

text \<open>
  C6, as amended.  While the flag is set no input changes the guess: (1)
  \<open>handleInput\<close> and \<open>handleGuessChange\<close> of a render whose flag is set return the
  state unchanged, and (2) so does every input event, and every sequence of
  input events, on the rendered component.  (3) The flag is set by the
  wrong-guess path, which the guess effect takes for a full-length guess that
  differs from the answer, and which appends one callback with a delay of
  1000 ms to the pending timeouts.  (4) When the oldest pending callback runs on
  the mounted component, whichever guess scheduled it, the guess is empty and
  the flag is unset afterwards, and the later timeouts stay pending.  (5) No
  step cancels a timeout: \<open>startNewGame\<close>, \<open>handleResetGame\<close> and a settled
  fetch leave the pending timeouts as they are.  (6) Besides a timeout, the flag
  is unset by \<open>handleResetGame\<close> and by \<open>startNewGame\<close> of a render that is not
  loading.  (7) Every other step leaves a set flag set.  So the lock lasts until
  the first pending timeout fires, a round is started or the game is reset; that
  timeout need not be the one of the guess that set the flag.
\<close>

theorem wrong_guess_lock:
  "(isWrongGuess env \<longrightarrow> handleInput env raw st = st \<and> handleGuessChange env v st = st) \<and>
   (isWrongGuess st \<longrightarrow> submitGuess raw st = st \<and> submitGuesses raws st = st) \<and>
   (gameStatus st = PLAYING \<and> answer st \<noteq> [] \<and> \<not> isWrongGuess st \<and>
    length (guessValue st) = length (answerSanitized (answer st)) \<and>
    toLowerCase (guessValue st) \<noteq> toLowerCase (answerSanitized (answer st)) \<longrightarrow>
      guessEffect st st = handleIncorrectGuess st) \<and>
   isWrongGuess (handleIncorrectGuess st) \<and>
   timeouts (handleIncorrectGuess st) = timeouts st @ [1000] \<and>
   guessValue (handleIncorrectGuess st) = guessValue st \<and>
   (isMounted st \<and> timeouts st = d # ds \<longrightarrow>
      guessValue (fireTimeout st) = [] \<and> \<not> isWrongGuess (fireTimeout st) \<and>
      timeouts (fireTimeout st) = ds) \<and>
   timeouts (startNewGame env st) = timeouts st \<and>
   timeouts (handleResetGame st) = timeouts st \<and>
   timeouts (resume rid res st) = timeouts st \<and>
   \<not> isWrongGuess (handleResetGame st) \<and>
   (gameStatus env \<noteq> LOADING \<longrightarrow> \<not> isWrongGuess (startNewGame env st)) \<and>
   (isWrongGuess st \<longrightarrow>
      (gameStatus env = LOADING \<longrightarrow> isWrongGuess (startNewGame env st)) \<and>
      isWrongGuess (resume rid res st) \<and>
      isWrongGuess (guessEffect st st) \<and>
      isWrongGuess (timerEffect st (timerEffect_cleanup st)) \<and>
      isWrongGuess (tick st) \<and>
      isWrongGuess (prefetchEffect st st) \<and>
      isWrongGuess (prefetch_then p data st) \<and>
      isWrongGuess (prefetch_catch p st) \<and>
      isWrongGuess (styleEffect (setImageStyle style st) (setImageStyle style st)) \<and>
      isWrongGuess (unmount st))"
proof (intro conjI impI)
  assume "isWrongGuess env"
  then show "handleInput env raw st = st" and "handleGuessChange env v st = st"
    by (simp_all add: handleInput_locked handleGuessChange_def)
next
  assume "isWrongGuess st"
  then show "submitGuess raw st = st" and "submitGuesses raws st = st"
    by (simp_all add: submitGuess_locked submitGuesses_locked)
next
  assume "gameStatus st = PLAYING \<and> answer st \<noteq> [] \<and> \<not> isWrongGuess st \<and>
    length (guessValue st) = length (answerSanitized (answer st)) \<and>
    toLowerCase (guessValue st) \<noteq> toLowerCase (answerSanitized (answer st))"
  then show "guessEffect st st = handleIncorrectGuess st"
    by (simp add: guessEffect_full_length)
next
  show "isWrongGuess (handleIncorrectGuess st)"
    and "timeouts (handleIncorrectGuess st) = timeouts st @ [1000]"
    and "guessValue (handleIncorrectGuess st) = guessValue st"
    by simp_all
next
  assume fire: "isMounted st \<and> timeouts st = d # ds"
  then have "fireTimeout st = st\<lparr>timeouts := ds, guessValue := [], isWrongGuess := False\<rparr>"
    by (simp add: fireTimeout_Cons wrongGuessTimeout_mounted)
  then show "guessValue (fireTimeout st) = []" and "\<not> isWrongGuess (fireTimeout st)"
    and "timeouts (fireTimeout st) = ds"
    by simp_all
next
  show "timeouts (startNewGame env st) = timeouts st"
    and "timeouts (handleResetGame st) = timeouts st"
    and "timeouts (resume rid res st) = timeouts st"
    and "\<not> isWrongGuess (handleResetGame st)"
    by (simp_all add: startNewGame_lock handleResetGame_timeouts resume_lock
        handleResetGame_fields)
next
  assume "gameStatus env \<noteq> LOADING"
  then show "\<not> isWrongGuess (startNewGame env st)"
    by (simp add: startNewGame_lock)
next
  assume locked: "isWrongGuess st"
  then show "isWrongGuess (resume rid res st)"
    and "isWrongGuess (guessEffect st st)"
    and "isWrongGuess (timerEffect st (timerEffect_cleanup st))"
    and "isWrongGuess (tick st)"
    and "isWrongGuess (prefetchEffect st st)"
    and "isWrongGuess (prefetch_then p data st)"
    and "isWrongGuess (prefetch_catch p st)"
    and "isWrongGuess (styleEffect (setImageStyle style st) (setImageStyle style st))"
    and "isWrongGuess (unmount st)"
    by (simp_all add: resume_lock guessEffect_locked timerEffect_lock other_steps_lock)
  assume "gameStatus env = LOADING"
  with locked show "isWrongGuess (startNewGame env st)"
    by (simp add: startNewGame_lock)
qed

text \<open>
  Round 1 after the wrong guess \<open>inceptiom\<close>: even the right answer is rejected
  while the flag is set; the pending timeout has delay 1000 and clears guess and
  flag; a reset unsets the flag and keeps the timeout pending.
\<close>

theorem wrong_guess_lock_witness:
  "isWrongGuess wrongRound1 \<and> timeouts wrongRound1 = [1000] \<and>
   submitGuess ''inception'' wrongRound1 = wrongRound1 \<and>
   guessValue (submitGuess ''inception'' wrongRound1) = ''inceptiom'' \<and>
   guessValue (fireTimeout wrongRound1) = [] \<and>
   \<not> isWrongGuess (fireTimeout wrongRound1) \<and>
   timeouts (fireTimeout wrongRound1) = [] \<and>
   isWrongGuess (tick wrongRound1) \<and>
   \<not> isWrongGuess (handleResetGame wrongRound1) \<and>
   timeouts (handleResetGame wrongRound1) = [1000]"
  using wrong_guess_lock
          [where env = wrongRound1 and st = wrongRound1 and raw = "''inception''"
             and v = "''inception''" and raws = "[]" and d = 1000 and ds = "[]"]
  by (simp add: wrongRound1_fields)

text \<open>
  C6 as stated fails: in round 3 the timeout of round 1 is still pending when
  the wrong guess \<open>diehars\<close> sets the flag and appends its own timeout.  The
  timeout of round 1 fires first: the flag is unset and the input \<open>die\<close> is
  accepted, while the timeout of the guess that set the flag is still pending.
\<close>

theorem wrong_guess_lock_ends_with_earlier_timeout:
  "reachable (fireTimeout wrongRound3) \<and>
   roundIdRef wrongRound1 = 1 \<and> timeouts wrongRound1 = [1000] \<and>
   roundIdRef playingRound3 = 3 \<and> timeouts playingRound3 = [1000] \<and>
   isWrongGuess wrongRound3 \<and> timeouts wrongRound3 = [1000, 1000] \<and>
   \<not> isWrongGuess (fireTimeout wrongRound3) \<and>
   timeouts (fireTimeout wrongRound3) = [1000] \<and>
   guessValue (fireTimeout wrongRound3) = [] \<and>
   guessValue (submitGuess ''die'' (fireTimeout wrongRound3)) = ''die''"
proof -
  have fired: "fireTimeout wrongRound3
      = wrongRound3\<lparr>timeouts := [1000], guessValue := [], isWrongGuess := False\<rparr>"
    by (simp add: fireTimeout_Cons wrongGuessTimeout_mounted wrongRound3_fields)
  have accepted: "guessValue (submitGuess ''die'' (fireTimeout wrongRound3)) = ''die''"
    by code_simp
  have "reachable (fireTimeout wrongRound3)"
    using reachable_wrongRound3 by (rule reachable.timeout_fired)
  with accepted show ?thesis
    by (simp add: fired wrongRound3_fields wrongRound1_fields playingRound3_fields)
qed

section \<open>The deferred action of the wrong-guess path\<close>

text \<open>
  C4, as amended.  The callback that \<open>handleIncorrectGuess\<close> schedules (delay
  1000 ms) tests only whether the component is mounted; it does not read
  \<open>roundIdRef\<close> or the status.  (1) On a mounted component it empties the guess
  and unsets the flag and writes nothing else; (2) on an unmounted component it
  does nothing; (3) running it twice is the same as running it once; (4) it acts
  the same whatever round and status are current.
\<close>

theorem wrongGuessTimeout_guarded_by_mount_only:
  "(isMounted st \<longrightarrow>
      wrongGuessTimeout st = st\<lparr>guessValue := [], isWrongGuess := False\<rparr>) \<and>
   (\<not> isMounted st \<longrightarrow> wrongGuessTimeout st = st) \<and>
   wrongGuessTimeout (wrongGuessTimeout st) = wrongGuessTimeout st \<and>
   wrongGuessTimeout (st\<lparr>roundIdRef := r, gameStatus := g\<rparr>)
     = (wrongGuessTimeout st)\<lparr>roundIdRef := r, gameStatus := g\<rparr> \<and>
   timeouts (handleIncorrectGuess st) = timeouts st @ [1000]"
  by (simp add: wrongGuessTimeout_def)

text \<open>
  The timeout scheduled in round 1 is still pending while round 3 is played
  with the guess \<open>die\<close>; when it fires the guess of round 3 is emptied.
\<close>

theorem wrongGuessTimeout_guarded_by_mount_only_witness:
  "isMounted typingRound3 \<and>
   wrongGuessTimeout typingRound3 = typingRound3\<lparr>guessValue := [], isWrongGuess := False\<rparr> \<and>
   guessValue (wrongGuessTimeout typingRound3) = [] \<and>
   wrongGuessTimeout (wrongGuessTimeout typingRound3) = wrongGuessTimeout typingRound3"
  using wrongGuessTimeout_guarded_by_mount_only [where st = typingRound3 and r = 3 and g = PLAYING]
  by (simp add: typingRound3_fields wrongGuessTimeout_def)

text \<open>
  C4 as stated fails: the wrong guess was made in round 1 (\<open>roundIdRef = 1\<close>);
  after a reset, round 3 is being played and holds the guess \<open>die\<close>; the one
  pending timeout is that of round 1, and when it fires the guess of round 3 is
  gone.
\<close>

theorem wrong_guess_timeout_clears_later_round:
  "roundIdRef wrongRound1 = 1 \<and> timeouts wrongRound1 = [1000] \<and>
   roundIdRef typingRound3 = 3 \<and> gameStatus typingRound3 = PLAYING \<and>
   timeouts typingRound3 = [1000] \<and> guessValue typingRound3 = ''die'' \<and>
   guessValue (fireTimeout typingRound3) = [] \<and>
   guessValue (fireTimeout typingRound3) \<noteq> guessValue typingRound3"
proof -
  have "fireTimeout typingRound3 = wrongGuessTimeout (typingRound3\<lparr>timeouts := []\<rparr>)"
    by (simp add: fireTimeout_Cons typingRound3_fields)
  then have "guessValue (fireTimeout typingRound3) = []"
    by (simp add: wrongGuessTimeout_def typingRound3_fields)
  then show ?thesis
    by (simp add: typingRound3_fields wrongRound1_fields)
qed

section \<open>Guess evaluation\<close>

lemma handleCorrectGuess_won:
  "gameStatus env = PLAYING \<Longrightarrow>
   gameStatus (handleCorrectGuess env st) = WON \<and>
   score (handleCorrectGuess env st) = score env + 1"
  by (simp add: handleCorrectGuess_def Let_def)

lemma dieHard_strings:
  "answerSanitized ''Die Hard'' = ''DieHard''"
  "filter isAlnum ''diehard'' = ''diehard''"
  "toLowerCase ''diehard'' = ''diehard''"
  "toLowerCase ''DieHard'' = ''diehard''"
  by code_simp+

lemma submitGuess_changed:
  assumes "guessValue (handleInput st raw st) \<noteq> guessValue st"
  shows "\<not> isWrongGuess st" and "\<not> isDisabled st"
    and "handleInput st raw st
      = st\<lparr>guessValue := take (length (answerSanitized (answer st))) (filter isAlnum raw)\<rparr>"
    and "submitGuess raw st = guessEffect (handleInput st raw st) (handleInput st raw st)"
  using assms
  by (auto simp add: handleInput_def handleGuessChange_def submitGuess_def Let_def
      split: if_splits)

text \<open>
  C8.  (1) The guess effect of a render whose status is \<open>PLAYING\<close>, whose answer
  is set (it is in every reachable state that is playing, (5)) and whose flag is
  not set (no input is accepted while it is), with a guess as long as the
  sanitized answer,
  compares the two in lower case: equal, it calls \<open>handleCorrectGuess\<close>;
  different, \<open>handleIncorrectGuess\<close>.  (2) The same for an input event that, in a
  reachable state with status \<open>PLAYING\<close>, changes the guess to that length.  (3) "Die Hard"
  with the white space removed is "DieHard", of length 7, and (4) whenever it is
  the answer of the round being played, the input \<open>diehard\<close> wins: the status
  becomes \<open>WON\<close> and the score grows by one.
\<close>

theorem full_length_guess_is_compared:
  "(gameStatus env = PLAYING \<and> answer env \<noteq> [] \<and> \<not> isWrongGuess env \<and>
    length (guessValue env) = length (answerSanitized (answer env)) \<longrightarrow>
      guessEffect env st
        = (if toLowerCase (guessValue env) = toLowerCase (answerSanitized (answer env))
           then handleCorrectGuess env st else handleIncorrectGuess st)) \<and>
   (reachable st \<and> gameStatus st = PLAYING \<and>
    guessValue (handleInput st raw st) \<noteq> guessValue st \<and>
    length (guessValue (handleInput st raw st)) = length (answerSanitized (answer st)) \<longrightarrow>
      submitGuess raw st
        = (let st1 = handleInput st raw st
           in if toLowerCase (guessValue st1) = toLowerCase (answerSanitized (answer st))
              then handleCorrectGuess st1 st1 else handleIncorrectGuess st1)) \<and>
   answerSanitized ''Die Hard'' = ''DieHard'' \<and>
   length (answerSanitized ''Die Hard'') = 7 \<and>
   (gameStatus st = PLAYING \<and> \<not> isWrongGuess st \<and> answer st = ''Die Hard'' \<and>
    guessValue st \<noteq> ''diehard'' \<longrightarrow>
      submitGuess ''diehard'' st
        = handleCorrectGuess (st\<lparr>guessValue := ''diehard''\<rparr>) (st\<lparr>guessValue := ''diehard''\<rparr>) \<and>
      gameStatus (submitGuess ''diehard'' st) = WON \<and>
      score (submitGuess ''diehard'' st) = score st + 1) \<and>
   (reachable st \<and> gameStatus st = PLAYING \<longrightarrow> answer st \<noteq> [])"
proof (intro conjI impI)
  assume "reachable st \<and> gameStatus st = PLAYING"
  then have "roundInv st" and "gameStatus st = PLAYING"
    by (simp_all add: reachable_roundInv)
  then show "answer st \<noteq> []" by (simp add: roundInv_def)
next
  assume "gameStatus env = PLAYING \<and> answer env \<noteq> [] \<and> \<not> isWrongGuess env \<and>
    length (guessValue env) = length (answerSanitized (answer env))"
  then show "guessEffect env st
        = (if toLowerCase (guessValue env) = toLowerCase (answerSanitized (answer env))
           then handleCorrectGuess env st else handleIncorrectGuess st)"
    by (simp add: guessEffect_full_length)
next
  assume r: "reachable st \<and> gameStatus st = PLAYING \<and>
    guessValue (handleInput st raw st) \<noteq> guessValue st \<and>
    length (guessValue (handleInput st raw st)) = length (answerSanitized (answer st))"
  then have "roundInv st" by (simp add: reachable_roundInv)
  with r have a: "gameStatus st = PLAYING \<and> answer st \<noteq> [] \<and>
    guessValue (handleInput st raw st) \<noteq> guessValue st \<and>
    length (guessValue (handleInput st raw st)) = length (answerSanitized (answer st))"
    by (simp add: roundInv_def)
  let ?st1 = "handleInput st raw st"
  from a have changed: "guessValue ?st1 \<noteq> guessValue st" by simp
  have unlocked: "\<not> isWrongGuess st" using changed by (rule submitGuess_changed)
  have st1: "?st1
      = st\<lparr>guessValue := take (length (answerSanitized (answer st))) (filter isAlnum raw)\<rparr>"
    using changed by (rule submitGuess_changed)
  have "gameStatus ?st1 = PLAYING" "answer ?st1 \<noteq> []" "\<not> isWrongGuess ?st1"
    "length (guessValue ?st1) = length (answerSanitized (answer ?st1))"
    using a unlocked by (simp_all add: st1)
  then have "guessEffect ?st1 ?st1
      = (if toLowerCase (guessValue ?st1) = toLowerCase (answerSanitized (answer ?st1))
         then handleCorrectGuess ?st1 ?st1 else handleIncorrectGuess ?st1)"
    by (rule guessEffect_full_length)
  moreover have "submitGuess raw st = guessEffect ?st1 ?st1"
    using changed by (rule submitGuess_changed)
  ultimately show "submitGuess raw st
        = (let st1 = handleInput st raw st
           in if toLowerCase (guessValue st1) = toLowerCase (answerSanitized (answer st))
              then handleCorrectGuess st1 st1 else handleIncorrectGuess st1)"
    by (simp add: Let_def)
next
  show "answerSanitized ''Die Hard'' = ''DieHard''"
    by (rule dieHard_strings)
  show "length (answerSanitized ''Die Hard'') = 7"
    by (simp add: dieHard_strings)
next
  assume a: "gameStatus st = PLAYING \<and> \<not> isWrongGuess st \<and> answer st = ''Die Hard'' \<and>
    guessValue st \<noteq> ''diehard''"
  let ?st1 = "st\<lparr>guessValue := ''diehard''\<rparr>"
  from a have ans: "answer st = ''Die Hard''" by simp
  have accepted: "handleInput st ''diehard'' st
      = st\<lparr>guessValue := take (length (answerSanitized (answer st)))
                                (filter isAlnum ''diehard'')\<rparr>"
    using a by (intro handleInput_accepted) simp_all
  have cut: "take (length (answerSanitized (answer st))) (filter isAlnum ''diehard'')
      = ''diehard''"
    unfolding ans dieHard_strings by simp
  have st1: "handleInput st ''diehard'' st = ?st1"
    by (simp only: accepted cut)
  have "guessEffect ?st1 ?st1
      = (if toLowerCase (guessValue ?st1) = toLowerCase (answerSanitized (answer ?st1))
         then handleCorrectGuess ?st1 ?st1 else handleIncorrectGuess ?st1)"
    using a by (intro guessEffect_full_length) (simp_all add: dieHard_strings)
  then have eff: "guessEffect ?st1 ?st1 = handleCorrectGuess ?st1 ?st1"
    using a by (simp add: dieHard_strings)
  show sub: "submitGuess ''diehard'' st = handleCorrectGuess ?st1 ?st1"
    using a eff by (auto simp add: submitGuess_def st1 Let_def)
  have "gameStatus ?st1 = PLAYING" using a by simp
  then have "gameStatus (handleCorrectGuess ?st1 ?st1) = WON \<and>
      score (handleCorrectGuess ?st1 ?st1) = score ?st1 + 1"
    by (rule handleCorrectGuess_won)
  then show "gameStatus (submitGuess ''diehard'' st) = WON"
    and "score (submitGuess ''diehard'' st) = score st + 1"
    by (simp_all add: sub)
qed

text \<open>
  Round 3 with the answer "Die Hard": the input \<open>diehard\<close> wins it, the input
  \<open>diehars\<close> takes the wrong-guess path.
\<close>

theorem full_length_guess_is_compared_witness:
  "gameStatus playingRound3 = PLAYING \<and> answer playingRound3 = ''Die Hard'' \<and>
   gameStatus (submitGuess ''diehard'' playingRound3) = WON \<and>
   score (submitGuess ''diehard'' playingRound3) = 1 \<and>
   submitGuess ''diehars'' playingRound3
     = handleIncorrectGuess (playingRound3\<lparr>guessValue := ''diehars''\<rparr>) \<and>
   isWrongGuess (submitGuess ''diehars'' playingRound3) \<and>
   reachable playingRound3 \<and> answer playingRound3 \<noteq> []"
proof -
  have typed: "handleInput playingRound3 ''diehars'' playingRound3
      = playingRound3\<lparr>guessValue := ''diehars''\<rparr>"
    by (simp add: handleInput_accepted playingRound3_fields dieHard_strings isAlnum_def)
  have lower: "toLowerCase ''diehars'' = ''diehars''"
    by code_simp
  note inst = full_length_guess_is_compared
      [where env = playingRound3 and st = playingRound3 and raw = "''diehars''"]
  have playing: "gameStatus playingRound3 = PLAYING \<and> \<not> isWrongGuess playingRound3 \<and>
      answer playingRound3 = ''Die Hard'' \<and> guessValue playingRound3 \<noteq> ''diehard''"
    by (simp add: playingRound3_fields)
  have won: "gameStatus (submitGuess ''diehard'' playingRound3) = WON \<and>
      score (submitGuess ''diehard'' playingRound3) = score playingRound3 + 1"
    using inst playing by blast
  have full: "reachable playingRound3 \<and> gameStatus playingRound3 = PLAYING \<and>
      guessValue (handleInput playingRound3 ''diehars'' playingRound3)
        \<noteq> guessValue playingRound3 \<and>
      length (guessValue (handleInput playingRound3 ''diehars'' playingRound3))
        = length (answerSanitized (answer playingRound3))"
    by (simp add: typed playingRound3_fields dieHard_strings reachable_playingRound3)
  have "submitGuess ''diehars'' playingRound3
      = (let st1 = handleInput playingRound3 ''diehars'' playingRound3
         in if toLowerCase (guessValue st1) = toLowerCase (answerSanitized (answer playingRound3))
            then handleCorrectGuess st1 st1 else handleIncorrectGuess st1)"
    using inst full by blast
  then have wrong: "submitGuess ''diehars'' playingRound3
      = handleIncorrectGuess (playingRound3\<lparr>guessValue := ''diehars''\<rparr>)"
    by (simp add: typed lower playingRound3_fields dieHard_strings Let_def)
  have "answer playingRound3 \<noteq> []"
    using inst reachable_playingRound3 playing by blast
  with won wrong reachable_playingRound3 show ?thesis
    by (simp add: playingRound3_fields)
qed

section \<open>Score and level\<close>

lemma handleCorrectGuess_level:
  "gameStatus st = PLAYING \<Longrightarrow>
   level (handleCorrectGuess st st) = max (level st) ((score st + 1) div 5 + 1)"
  by (simp add: handleCorrectGuess_def Let_def max_def)

lemma handleCorrectGuess_trace:
  "gameStatus st = PLAYING \<Longrightarrow> chatPanelRef st \<Longrightarrow>
   trace (handleCorrectGuess st st)
     = trace st @
       (if level st < (score st + 1) div 5 + 1
        then [SendGameEvent (Some Correct) None,
              SendGameEvent (Some (LevelUp ((score st + 1) div 5 + 1))) None,
              SendGameEvent None (Some (GuessedCorrectly (answer st) (explanation st)
                (Some ((score st + 1) div 5 + 1))))]
        else [SendGameEvent (Some Correct) None,
              SendGameEvent None (Some (GuessedCorrectly (answer st) (explanation st) None))])"
  by (simp add: handleCorrectGuess_def Let_def trace_handleGameEvent)

text \<open>
  C9.  A win on the rendered component (status \<open>PLAYING\<close>): (1) the score grows
  by exactly one and the status becomes \<open>WON\<close>; (2) if the level was
  \<open>score div 5 + 1\<close> before, as it is in every reachable state, it is
  \<open>score div 5 + 1\<close> for the new score, hence 1 for a score up to 4 and 2 for a
  score from 5 to 9, so after a win in a reachable state the level is
  \<open>score div 5 + 1\<close>; (3) when the level has grown, the events sent are, in this
  order, "Correct", the level-up message, and the message for the AI with the
  answer and the explanation; (4) when it has not, "Correct" and then the message
  with the answer and the explanation.
\<close>

theorem win_increments_score_and_recomputes_level:
  assumes "gameStatus st = PLAYING"
  shows
  "score (handleCorrectGuess st st) = score st + 1 \<and>
   gameStatus (handleCorrectGuess st st) = WON \<and>
   (reachable st0 \<longrightarrow> level st0 = score st0 div 5 + 1) \<and>
   (reachable st \<longrightarrow>
      level (handleCorrectGuess st st) = score (handleCorrectGuess st st) div 5 + 1) \<and>
   (level st = score st div 5 + 1 \<longrightarrow>
      level (handleCorrectGuess st st) = score (handleCorrectGuess st st) div 5 + 1 \<and>
      (score (handleCorrectGuess st st) \<le> 4 \<longrightarrow> level (handleCorrectGuess st st) = 1) \<and>
      (5 \<le> score (handleCorrectGuess st st) \<and> score (handleCorrectGuess st st) \<le> 9 \<longrightarrow>
         level (handleCorrectGuess st st) = 2)) \<and>
   (chatPanelRef st \<and> level st < level (handleCorrectGuess st st) \<longrightarrow>
      trace (handleCorrectGuess st st)
        = trace st @
          [SendGameEvent (Some Correct) None,
           SendGameEvent (Some (LevelUp (level (handleCorrectGuess st st)))) None,
           SendGameEvent None (Some (GuessedCorrectly (answer st) (explanation st)
             (Some (level (handleCorrectGuess st st)))))]) \<and>
   (chatPanelRef st \<and> level (handleCorrectGuess st st) = level st \<longrightarrow>
      trace (handleCorrectGuess st st)
        = trace st @
          [SendGameEvent (Some Correct) None,
           SendGameEvent None (Some (GuessedCorrectly (answer st) (explanation st) None))])"
proof -
  let ?st' = "handleCorrectGuess st st"
  have won: "gameStatus ?st' = WON \<and> score ?st' = score st + 1"
    using assms by (rule handleCorrectGuess_won)
  have lvl: "level ?st' = max (level st) ((score st + 1) div 5 + 1)"
    using assms by (rule handleCorrectGuess_level)
  have inv: "level ?st' = score ?st' div 5 + 1" if "level st = score st div 5 + 1"
  proof -
    have "score st div 5 \<le> (score st + 1) div 5" by (rule div_le_mono) simp
    with that lvl won show ?thesis by simp
  qed
  have low: "level ?st' = 1" if "level st = score st div 5 + 1" "score ?st' \<le> 4"
    using inv [OF that(1)] that(2) by simp
  have mid: "level ?st' = 2"
    if "level st = score st div 5 + 1" "5 \<le> score ?st' \<and> score ?st' \<le> 9"
  proof -
    from that(2) have "score ?st' div 5 = 1" by presburger
    with inv [OF that(1)] show ?thesis by simp
  qed
  have up: "trace ?st' = trace st @
          [SendGameEvent (Some Correct) None,
           SendGameEvent (Some (LevelUp (level ?st'))) None,
           SendGameEvent None (Some (GuessedCorrectly (answer st) (explanation st)
             (Some (level ?st'))))]"
    if "chatPanelRef st \<and> level st < level ?st'"
  proof -
    from that lvl have "level st < (score st + 1) div 5 + 1" and "level ?st' = (score st + 1) div 5 + 1"
      by (simp_all add: max_def split: if_splits)
    with that assms show ?thesis by (simp add: handleCorrectGuess_trace)
  qed
  have same: "trace ?st' = trace st @
          [SendGameEvent (Some Correct) None,
           SendGameEvent None (Some (GuessedCorrectly (answer st) (explanation st) None))]"
    if "chatPanelRef st \<and> level ?st' = level st"
  proof -
    from that lvl have "\<not> level st < (score st + 1) div 5 + 1"
      by (simp add: max_def split: if_splits)
    with that assms show ?thesis by (simp add: handleCorrectGuess_trace)
  qed
  have every: "level s = score s div 5 + 1" if "reachable s" for s
  proof -
    from that have "roundInv s" by (rule reachable_roundInv)
    then show ?thesis by (simp add: roundInv_def)
  qed
  have direct: "level ?st' = score ?st' div 5 + 1" if "reachable st"
    using that every [of st] inv by simp
  from won inv low mid up same every [of st0] direct show ?thesis by blast
qed

text \<open>
  The fifth win: the score goes from 4 to 5, the level from 1 to 2, and the
  level-up message is sent before the message with answer and explanation.  The
  first win: score 1, level 1, no level-up message.
\<close>

theorem win_increments_score_and_recomputes_level_witness:
  "gameStatus playingScore4 = PLAYING \<and> score playingScore4 = 4 \<and> level playingScore4 = 1 \<and>
   score (handleCorrectGuess playingScore4 playingScore4) = 5 \<and>
   level (handleCorrectGuess playingScore4 playingScore4) = 2 \<and>
   trace (handleCorrectGuess playingScore4 playingScore4)
     = trace playingScore4 @
       [SendGameEvent (Some Correct) None, SendGameEvent (Some (LevelUp 2)) None,
        SendGameEvent None
          (Some (GuessedCorrectly ''Inception'' ''a spinning top'' (Some 2)))] \<and>
   score (handleCorrectGuess playingRound1 playingRound1) = 1 \<and>
   level (handleCorrectGuess playingRound1 playingRound1) = 1 \<and>
   trace (handleCorrectGuess playingRound1 playingRound1)
     = trace playingRound1 @
       [SendGameEvent (Some Correct) None,
        SendGameEvent None (Some (GuessedCorrectly ''Inception'' ''a spinning top'' None))] \<and>
   reachable wonRound1 \<and> score wonRound1 = 1 \<and> level wonRound1 = 1"
proof -
  have four: "gameStatus playingScore4 = PLAYING" "score playingScore4 = 4"
    "level playingScore4 = 1" "chatPanelRef playingScore4"
    "answer playingScore4 = ''Inception''" "explanation playingScore4 = ''a spinning top''"
    by (simp_all add: playingScore4_def playingRound1_eq loadingRound1_eq initial_def)
  have zero: "gameStatus playingRound1 = PLAYING" "score playingRound1 = 0"
    "level playingRound1 = 1" "chatPanelRef playingRound1"
    "answer playingRound1 = ''Inception''" "explanation playingRound1 = ''a spinning top''"
    by (simp_all add: playingRound1_eq loadingRound1_eq initial_def)
  have fifth: "score (handleCorrectGuess playingScore4 playingScore4) = 5 \<and>
      level (handleCorrectGuess playingScore4 playingScore4) = 2"
    using win_increments_score_and_recomputes_level [of playingScore4 wonRound1]
    by (simp add: four)
  then have "trace (handleCorrectGuess playingScore4 playingScore4)
     = trace playingScore4 @
       [SendGameEvent (Some Correct) None, SendGameEvent (Some (LevelUp 2)) None,
        SendGameEvent None
          (Some (GuessedCorrectly ''Inception'' ''a spinning top'' (Some 2)))]"
    using win_increments_score_and_recomputes_level [of playingScore4 wonRound1]
    by (simp add: four)
  moreover have first: "score (handleCorrectGuess playingRound1 playingRound1) = 1 \<and>
      level (handleCorrectGuess playingRound1 playingRound1) = 1"
    using win_increments_score_and_recomputes_level [of playingRound1 wonRound1]
    by (simp add: zero)
  moreover from first have "trace (handleCorrectGuess playingRound1 playingRound1)
     = trace playingRound1 @
       [SendGameEvent (Some Correct) None,
        SendGameEvent None (Some (GuessedCorrectly ''Inception'' ''a spinning top'' None))]"
    using win_increments_score_and_recomputes_level [of playingRound1 wonRound1]
    by (simp add: zero)
  moreover have "score wonRound1 = 1"
    by (simp add: wonRound1_eq)
  moreover from this have "level wonRound1 = 1"
    using win_increments_score_and_recomputes_level [of playingRound1 wonRound1]
      reachable_wonRound1
    by (simp add: zero)
  ultimately show ?thesis using fifth reachable_wonRound1 by (simp add: four)
qed

end
